theory Spec2Isabelle
  imports Main "HOL-Library.Word" "HOL-Library.Product_Lexorder"
begin

section \<open>sesmon: a shallow embedding of the SES monitoring daemon\<close>

text \<open>
  The development follows the Go sources of \<^verbatim>\<open>cmd/sesmon\<close>: the SES parser and
  the diff engine, the helpers of \<^verbatim>\<open>util.go\<close>, the report writer, the device
  resolver, the device monitor and the supervisor. Go's \<^verbatim>\<open>string\<close> is a byte
  sequence and is modelled by \<^typ>\<open>string\<close>; a nilable pointer \<^verbatim>\<open>*T\<close> is an
  \<^typ>\<open>'a option\<close>; Go's \<^verbatim>\<open>int\<close> is modelled by \<^typ>\<open>int\<close>: the code only
  compares, copies and prints these integers, and the two counters it increments
  (\<^verbatim>\<open>attempt\<close> in \<^verbatim>\<open>withRetries\<close>, bounded by its loop, and
  \<^verbatim>\<open>pollFailures\<close>, one step per failed poll) stay far from the 64-bit range.
\<close>

subsection \<open>Errors and outcomes\<close>

text \<open>
  The sentinel errors of the package, errors that come from outside of it (the JSON
  decoder, the file system, a cancelled context) and \<^verbatim>\<open>fmt.Errorf("...: %w", err)\<close>,
  which wraps an error under a message; \<open>WrappedBoth\<close> is a format with two
  \<^verbatim>\<open>%w\<close> verbs and \<open>AtConfig\<close> the prefix \<^verbatim>\<open>[config:%d]\<close> of the supervisor.
\<close>

datatype error =
    errInvalidArgument
  | errInvalidJSON
  | errDeviceLookupFailed
  | errNoDevices
  | External string
  | Wrapped string error
  | WrappedBoth string error error
  | AtConfig nat error

text \<open>
  A Go function either returns, returns an error, or panics (a nil pointer
  dereference).
\<close>

datatype 'a outcome = Ok 'a | Err error | Panic

subsection \<open>Strings: the parts of the standard library the code calls\<close>

text \<open>
  \<^verbatim>\<open>strings.EqualFold\<close>, \<^verbatim>\<open>strings.TrimSpace\<close> and \<^verbatim>\<open>strings.ToLower\<close> are
  modelled on bytes, following their ASCII paths: the letters \<^verbatim>\<open>A\<close> to \<^verbatim>\<open>Z\<close>
  fold to \<^verbatim>\<open>a\<close> to \<^verbatim>\<open>z\<close>, the white space is tab, line feed, vertical tab,
  form feed, carriage return and space, and every other byte stands for itself.
\<close>

definition isUpperASCII :: "char \<Rightarrow> bool" where
  "isUpperASCII c = (65 \<le> (of_char c :: nat) \<and> (of_char c :: nat) \<le> 90)"

definition toLowerASCII :: "char \<Rightarrow> char" where
  "toLowerASCII c = (if isUpperASCII c then char_of ((of_char c :: nat) + 32) else c)"

definition ToLower :: "string \<Rightarrow> string" where
  "ToLower s = map toLowerASCII s"

text \<open>
  The loop of \<^verbatim>\<open>strings.EqualFold\<close>: equal bytes continue; otherwise the smaller
  of the two must be an upper-case letter and the larger its lower-case form; at the
  end both strings must be exhausted.
\<close>

definition foldPair :: "char \<Rightarrow> char \<Rightarrow> bool" where
  "foldPair sr tr =
     (let lo = min (of_char sr :: nat) (of_char tr); hi = max (of_char sr :: nat) (of_char tr)
      in 65 \<le> lo \<and> lo \<le> 90 \<and> hi = lo + 32)"

fun EqualFold :: "string \<Rightarrow> string \<Rightarrow> bool" where
  "EqualFold [] [] = True"
| "EqualFold (sr # s) (tr # t) = ((tr = sr \<or> foldPair sr tr) \<and> EqualFold s t)"
| "EqualFold _ _ = False"

definition isSpace :: "char \<Rightarrow> bool" where
  "isSpace c = ((of_char c :: nat) \<in> {9, 10, 11, 12, 13, 32})"

definition TrimSpace :: "string \<Rightarrow> string" where
  "TrimSpace s = rev (dropWhile isSpace (rev (dropWhile isSpace s)))"

text \<open>\<^verbatim>\<open>strconv.Itoa\<close> and the verb \<^verbatim>\<open>%d\<close>: decimal digits, with a minus sign.\<close>

definition digitChar :: "nat \<Rightarrow> char" where
  "digitChar d = ''0123456789'' ! d"

fun natDigits :: "nat \<Rightarrow> string" where
  "natDigits n = (if n < 10 then [digitChar n] else natDigits (n div 10) @ [digitChar (n mod 10)])"

declare natDigits.simps [simp del]

definition Itoa :: "int \<Rightarrow> string" where
  "Itoa i = (if i < 0 then CHR ''-'' # natDigits (nat (- i)) else natDigits (nat i))"

subsection \<open>structs.go: the SES document and the internal structures\<close>

record ElementType =
  et_I :: "int option"
  et_Meaning :: "string option"

record CodeMeaning =
  cm_I :: "int option"
  cm_Meaning :: "string option"

record Voltage =
  v_RawValue :: "int option"
  ValueInVolts :: "string option"

record Current =
  c_RawValue :: "int option"
  ValueInAmps :: "string option"

record StatusDescriptor =
  sd_Status :: "CodeMeaning option"
  sd_PrdFail :: "int option"
  sd_Disabled :: "int option"
  sd_Swap :: "int option"
  sd_Temperature :: "CodeMeaning option"
  sd_Voltage :: "Voltage option"
  sd_Current :: "Current option"

record Element =
  el_ElementType :: "ElementType option"
  el_ElementNumber :: "int option"
  el_StatusDescriptor :: "StatusDescriptor option"

record JoinPages =
  ElementList :: "Element list"

record Root =
  Join :: JoinPages

record Result =
  Type :: int
  TypeNum :: int
  TypeDesc :: "string option"
  Status :: "int option"
  StatusDesc :: "string option"
  PrdFail :: "int option"
  Disabled :: "int option"
  Swap :: "int option"
  Temperature :: "string option"
  Voltage :: "string option"
  Amperage :: "string option"

text \<open>The zero value \<^verbatim>\<open>Result{}\<close>, also what a lookup of a missing key returns.\<close>

definition zeroResult :: Result where
  "zeroResult = \<lparr>Type = 0, TypeNum = 0, TypeDesc = None, Status = None, StatusDesc = None,
     PrdFail = None, Disabled = None, Swap = None, Temperature = None, Voltage = None,
     Amperage = None\<rparr>"

record Change =
  ch_ID :: string
  ch_Type :: int
  ch_TypeNum :: int
  ch_TypeDesc :: "string option"
  ch_Before :: "Result option"
  ch_After :: "Result option"

record Device =
  dev_Type :: int
  dev_Path :: string
  dev_Address :: string
  dev_Description :: string

record ChangeReport =
  cr_Device :: Device
  cr_DetectedAt :: string
  cr_Changes :: "Change list"


subsection \<open>util.go: the small helpers\<close>

definition fne :: "string \<Rightarrow> string \<Rightarrow> string" where
  "fne a b = (if a \<noteq> [] then a else b)"

definition fnz :: "int \<Rightarrow> int \<Rightarrow> int" where
  "fnz a b = (if a \<noteq> 0 then a else b)"

definition ptrIntEqual :: "int option \<Rightarrow> int option \<Rightarrow> bool" where
  "ptrIntEqual a b =
     (if a = None \<and> b = None then True
      else if a = None \<or> b = None then False
      else the a = the b)"

definition ptrStrEqualFold :: "string option \<Rightarrow> string option \<Rightarrow> bool" where
  "ptrStrEqualFold a b =
     (if a = None \<and> b = None then True
      else if a = None \<or> b = None then False
      else EqualFold (the a) (the b))"


definition fmtPtrStr :: "string option \<Rightarrow> string \<Rightarrow> string" where
  "fmtPtrStr p e = (case p of None \<Rightarrow> e | Some s \<Rightarrow> s)"


subsection \<open>The parser: parseSES and keyFor\<close>

definition keyFor :: "Result \<Rightarrow> string" where
  "keyFor r = Itoa (Type r) @ ''#'' @ Itoa (TypeNum r)"

text \<open>
  The body of the loop of \<^verbatim>\<open>parseSES\<close>, in the order of the source. Each part
  returns \<open>None\<close> where the source says \<^verbatim>\<open>continue\<close>. An element without an
  \<^verbatim>\<open>element_type\<close> object passes the first part with \<^verbatim>\<open>r.Type\<close> left at zero.
\<close>

definition parseElementType :: "Element \<Rightarrow> Result \<Rightarrow> Result option" where
  "parseElementType el r =
     (case el_ElementType el of
        None \<Rightarrow> Some r
      | Some et \<Rightarrow>
          (case et_I et of
             None \<Rightarrow> None
           | Some i \<Rightarrow>
               (case et_Meaning et of
                  None \<Rightarrow> Some (r\<lparr>Type := i\<rparr>)
                | Some m \<Rightarrow> Some (r\<lparr>Type := i, TypeDesc := Some (TrimSpace m)\<rparr>))))"

definition parseElementNumber :: "Element \<Rightarrow> Result \<Rightarrow> Result option" where
  "parseElementNumber el r =
     (case el_ElementNumber el of
        None \<Rightarrow> None
      | Some n \<Rightarrow> Some (r\<lparr>TypeNum := n\<rparr>))"

definition parseStatus :: "StatusDescriptor \<Rightarrow> Result \<Rightarrow> Result" where
  "parseStatus sd r =
     (case sd_Status sd of
        None \<Rightarrow> r
      | Some st \<Rightarrow>
          (let r1 = (case cm_I st of None \<Rightarrow> r | Some i \<Rightarrow> r\<lparr>Status := Some i\<rparr>)
           in (case cm_Meaning st of
                 None \<Rightarrow> r1
               | Some m \<Rightarrow> r1\<lparr>StatusDesc := Some (TrimSpace m)\<rparr>)))"

definition parseFlags :: "StatusDescriptor \<Rightarrow> Result \<Rightarrow> Result" where
  "parseFlags sd r =
     (let r1 = (case sd_PrdFail sd of None \<Rightarrow> r | Some v \<Rightarrow> r\<lparr>PrdFail := Some v\<rparr>);
          r2 = (case sd_Disabled sd of None \<Rightarrow> r1 | Some v \<Rightarrow> r1\<lparr>Disabled := Some v\<rparr>)
      in (case sd_Swap sd of None \<Rightarrow> r2 | Some v \<Rightarrow> r2\<lparr>Swap := Some v\<rparr>))"

text \<open>
  The three metrics dereference \<^verbatim>\<open>Meaning\<close>, \<^verbatim>\<open>ValueInVolts\<close> and
  \<^verbatim>\<open>ValueInAmps\<close> without a nil check: a nil pointer there panics.
\<close>

definition parseTemperature :: "StatusDescriptor \<Rightarrow> Result \<Rightarrow> Result outcome" where
  "parseTemperature sd r =
     (case sd_Temperature sd of
        None \<Rightarrow> Ok r
      | Some t \<Rightarrow>
          (case cm_Meaning t of
             None \<Rightarrow> Panic
           | Some m \<Rightarrow> Ok (r\<lparr>Temperature := Some (TrimSpace m)\<rparr>)))"

definition parseVoltage :: "StatusDescriptor \<Rightarrow> Result \<Rightarrow> Result outcome" where
  "parseVoltage sd r =
     (case sd_Voltage sd of
        None \<Rightarrow> Ok r
      | Some v \<Rightarrow>
          (case ValueInVolts v of
             None \<Rightarrow> Panic
           | Some m \<Rightarrow> Ok (r\<lparr>Voltage := Some (TrimSpace m)\<rparr>)))"

definition parseCurrent :: "StatusDescriptor \<Rightarrow> Result \<Rightarrow> Result outcome" where
  "parseCurrent sd r =
     (case sd_Current sd of
        None \<Rightarrow> Ok r
      | Some c \<Rightarrow>
          (case ValueInAmps c of
             None \<Rightarrow> Panic
           | Some m \<Rightarrow> Ok (r\<lparr>Amperage := Some (TrimSpace m)\<rparr>)))"

definition parseStatusDescriptor :: "Element \<Rightarrow> Result \<Rightarrow> Result outcome" where
  "parseStatusDescriptor el r =
     (case el_StatusDescriptor el of
        None \<Rightarrow> Ok r
      | Some sd \<Rightarrow>
          (case parseTemperature sd (parseFlags sd (parseStatus sd r)) of
             Ok r1 \<Rightarrow>
               (case parseVoltage sd r1 of
                  Ok r2 \<Rightarrow> parseCurrent sd r2
                | Err e \<Rightarrow> Err e
                | Panic \<Rightarrow> Panic)
           | Err e \<Rightarrow> Err e
           | Panic \<Rightarrow> Panic))"

text \<open>One element: \<open>Ok None\<close> is a skipped element, \<open>Ok (Some r)\<close> the row to store.\<close>

definition parseElement :: "Element \<Rightarrow> Result option outcome" where
  "parseElement el =
     (case parseElementType el zeroResult of
        None \<Rightarrow> Ok None
      | Some r1 \<Rightarrow>
          (case parseElementNumber el r1 of
             None \<Rightarrow> Ok None
           | Some r2 \<Rightarrow>
               (case parseStatusDescriptor el r2 of
                  Ok r3 \<Rightarrow> Ok (Some r3)
                | Err e \<Rightarrow> Err e
                | Panic \<Rightarrow> Panic)))"

fun parseLoop :: "Element list \<Rightarrow> (string \<rightharpoonup> Result) \<Rightarrow> (string \<rightharpoonup> Result) outcome" where
  "parseLoop [] m = Ok m"
| "parseLoop (el # els) m =
     (case parseElement el of
        Ok None \<Rightarrow> parseLoop els m
      | Ok (Some r) \<Rightarrow> parseLoop els (m(keyFor r \<mapsto> r))
      | Err e \<Rightarrow> Err e
      | Panic \<Rightarrow> Panic)"

text \<open>
  \<^verbatim>\<open>parseSES\<close>. The decoder \<^verbatim>\<open>json.Unmarshal\<close> into a \<^verbatim>\<open>Root\<close> is a
  parameter: it returns the decoded document or the decoder's error.
\<close>

definition parseSES :: "(string \<Rightarrow> error + Root) \<Rightarrow> string \<Rightarrow> (string \<rightharpoonup> Result) outcome" where
  "parseSES unmarshal b =
     (case unmarshal b of
        Inl e \<Rightarrow> Err (Wrapped ''failure unmarshalling JSON'' e)
      | Inr root \<Rightarrow> parseLoop (ElementList (Join root)) Map.empty)"

subsection \<open>The diff engine: rowsEqual and rowsDiff\<close>

definition rowsEqual :: "Result \<Rightarrow> Result \<Rightarrow> bool" where
  "rowsEqual a b =
     (ptrIntEqual (Status a) (Status b) \<and>
      ptrStrEqualFold (StatusDesc a) (StatusDesc b) \<and>
      ptrIntEqual (PrdFail a) (PrdFail b) \<and>
      ptrIntEqual (Disabled a) (Disabled b) \<and>
      ptrIntEqual (Swap a) (Swap b))"

text \<open>
  The body of the loop over \<^verbatim>\<open>seen\<close>: the lookups \<^verbatim>\<open>p, pok := prev[k]\<close> and
  \<^verbatim>\<open>c, cok := cur[k]\<close> give the zero \<^verbatim>\<open>Result\<close> for a missing key.
\<close>

definition lookupOrZero :: "(string \<rightharpoonup> Result) \<Rightarrow> string \<Rightarrow> Result" where
  "lookupOrZero m k = (case m k of None \<Rightarrow> zeroResult | Some r \<Rightarrow> r)"

definition mkChange :: "(string \<rightharpoonup> Result) \<Rightarrow> (string \<rightharpoonup> Result) \<Rightarrow> string \<Rightarrow> Change" where
  "mkChange prev cur k =
     (let p = lookupOrZero prev k; c = lookupOrZero cur k
      in \<lparr>ch_ID = k,
          ch_Type = fnz (Type c) (Type p),
          ch_TypeNum = fnz (TypeNum c) (TypeNum p),
          ch_TypeDesc =
            (if TypeDesc c \<noteq> None \<or> TypeDesc p \<noteq> None
             then Some (fne (fmtPtrStr (TypeDesc c) []) (fmtPtrStr (TypeDesc p) []))
             else None),
          ch_Before = prev k,
          ch_After = cur k\<rparr>)"

definition differs :: "(string \<rightharpoonup> Result) \<Rightarrow> (string \<rightharpoonup> Result) \<Rightarrow> string \<Rightarrow> bool" where
  "differs prev cur k =
     (prev k = None \<or> cur k = None \<or>
      \<not> rowsEqual (lookupOrZero prev k) (lookupOrZero cur k))"

fun rowsDiffLoop :: "(string \<rightharpoonup> Result) \<Rightarrow> (string \<rightharpoonup> Result) \<Rightarrow> string list \<Rightarrow> Change list \<Rightarrow> Change list" where
  "rowsDiffLoop prev cur [] out = out"
| "rowsDiffLoop prev cur (k # ks) out =
     (if differs prev cur k
      then rowsDiffLoop prev cur ks (out @ [mkChange prev cur k])
      else rowsDiffLoop prev cur ks out)"

text \<open>
  Go ranges over the map \<^verbatim>\<open>seen\<close> in an unspecified order, each key once. The
  order is the parameter \<open>ks\<close>; \<open>seenKeys\<close> says that \<open>ks\<close> is such an enumeration
  of the keys of \<open>prev\<close> and \<open>cur\<close>.
\<close>

definition seenKeys :: "(string \<rightharpoonup> Result) \<Rightarrow> (string \<rightharpoonup> Result) \<Rightarrow> string list \<Rightarrow> bool" where
  "seenKeys prev cur ks = (distinct ks \<and> set ks = dom prev \<union> dom cur)"

definition rowsDiff :: "string list \<Rightarrow> (string \<rightharpoonup> Result) \<Rightarrow> (string \<rightharpoonup> Result) \<Rightarrow> Change list" where
  "rowsDiff ks prev cur = rowsDiffLoop prev cur ks []"


subsection \<open>util.go: withRetries\<close>

text \<open>
  \<^verbatim>\<open>withRetries\<close> runs in a world \<open>'w\<close> that the operation and the callback may
  change. The context is seen through \<open>ctxErr\<close> (the call \<^verbatim>\<open>ctx.Err()\<close>) and
  through \<open>selectDone\<close>, the \<^verbatim>\<open>select\<close> between \<^verbatim>\<open>ctx.Done()\<close> and
  \<^verbatim>\<open>time.After(interval)\<close>: it returns the context's error when the context was
  done first and \<open>None\<close> when the interval elapsed.
\<close>

record 'w retryContext =
  ctxErr :: "'w \<Rightarrow> error option"
  selectDone :: "int \<Rightarrow> 'w \<Rightarrow> error option \<times> 'w"

text \<open>
  The loop \<^verbatim>\<open>for range attempts\<close>: the first numeric argument is the number of
  iterations left, then the counter \<^verbatim>\<open>attempt\<close> and the last error \<^verbatim>\<open>e\<close>.
\<close>

fun retryLoop ::
  "'w retryContext \<Rightarrow> ('w \<Rightarrow> error option \<times> 'w) \<Rightarrow> (int \<Rightarrow> error \<Rightarrow> 'w \<Rightarrow> 'w) option \<Rightarrow>
   int \<Rightarrow> int \<Rightarrow> nat \<Rightarrow> int \<Rightarrow> error option \<Rightarrow> 'w \<Rightarrow> (int \<times> error option) \<times> 'w" where
  "retryLoop ctx fn onAttemptErr attempts interval 0 attempt e w = ((attempt, e), w)"
| "retryLoop ctx fn onAttemptErr attempts interval (Suc n) attempt e w =
     (case ctxErr ctx w of
        Some err \<Rightarrow> ((attempt, Some (Wrapped ''context error'' err)), w)
      | None \<Rightarrow>
          (case fn w of
             (None, w1) \<Rightarrow> ((attempt + 1, None), w1)
           | (Some err, w1) \<Rightarrow>
               (let w2 = (case onAttemptErr of None \<Rightarrow> w1 | Some cb \<Rightarrow> cb (attempt + 1) err w1)
                in if attempt + 1 < attempts
                   then (case selectDone ctx interval w2 of
                           (Some cerr, w3) \<Rightarrow> ((attempt + 1, Some (Wrapped ''context error'' cerr)), w3)
                         | (None, w3) \<Rightarrow>
                             retryLoop ctx fn onAttemptErr attempts interval n (attempt + 1) (Some err) w3)
                   else retryLoop ctx fn onAttemptErr attempts interval n (attempt + 1) (Some err) w2)))"

definition withRetries ::
  "'w retryContext \<Rightarrow> ('w \<Rightarrow> error option \<times> 'w) option \<Rightarrow> (int \<Rightarrow> error \<Rightarrow> 'w \<Rightarrow> 'w) option \<Rightarrow>
   int \<Rightarrow> int \<Rightarrow> 'w \<Rightarrow> (int \<times> error option) \<times> 'w" where
  "withRetries ctx fn onAttemptErr attempts interval w =
     (case fn of
        None \<Rightarrow> ((0, Some (Wrapped ''function cannot be nil'' errInvalidArgument)), w)
      | Some f \<Rightarrow> retryLoop ctx f onAttemptErr attempts interval (nat attempts) 0 None w)"

text \<open>
  To count the invocations of the operation, the world is paired with the list of the
  results the operation has returned so far: \<open>recording f\<close> appends its result, the
  context and the callback act on the first component only.
\<close>

definition recording :: "('w \<Rightarrow> error option \<times> 'w) \<Rightarrow> 'w \<times> error option list \<Rightarrow> error option \<times> 'w \<times> error option list" where
  "recording f = (\<lambda>(w, tr). case f w of (r, w') \<Rightarrow> (r, (w', tr @ [r])))"

definition liftContext :: "'w retryContext \<Rightarrow> ('w \<times> error option list) retryContext" where
  "liftContext ctx =
     \<lparr>ctxErr = (\<lambda>(w, tr). ctxErr ctx w),
      selectDone = (\<lambda>i (w, tr). case selectDone ctx i w of (r, w') \<Rightarrow> (r, (w', tr)))\<rparr>"

definition liftCallback ::
  "(int \<Rightarrow> error \<Rightarrow> 'w \<Rightarrow> 'w) option \<Rightarrow> (int \<Rightarrow> error \<Rightarrow> 'w \<times> error option list \<Rightarrow> 'w \<times> error option list) option" where
  "liftCallback cb = map_option (\<lambda>g n e (w, tr). (g n e w, tr)) cb"

subsection \<open>File paths: the parts of path/filepath the code calls\<close>

text \<open>
  \<^verbatim>\<open>filepath.Clean\<close>, \<^verbatim>\<open>Join\<close>, \<^verbatim>\<open>Dir\<close> and \<^verbatim>\<open>Base\<close> for slash-separated
  paths. \<open>Clean\<close> drops empty and \<^verbatim>\<open>.\<close> elements, resolves \<^verbatim>\<open>..\<close> against the
  element before it, and gives \<^verbatim>\<open>.\<close> for an empty result.
\<close>

fun splitOn :: "char \<Rightarrow> string \<Rightarrow> string list" where
  "splitOn c [] = [[]]"
| "splitOn c (x # xs) =
     (if x = c then [] # splitOn c xs
      else (case splitOn c xs of [] \<Rightarrow> [[x]] | y # ys \<Rightarrow> (x # y) # ys))"

fun joinWith :: "string \<Rightarrow> string list \<Rightarrow> string" where
  "joinWith sep [] = []"
| "joinWith sep [x] = x"
| "joinWith sep (x # y # ys) = x @ sep @ joinWith sep (y # ys)"

definition cleanStep :: "bool \<Rightarrow> string list \<Rightarrow> string \<Rightarrow> string list" where
  "cleanStep rooted st e =
     (if e = [] \<or> e = ''.'' then st
      else if e = ''..'' then
        (case st of
           [] \<Rightarrow> (if rooted then [] else [''..''])
         | t # ts \<Rightarrow> (if t = ''..'' then ''..'' # st else ts))
      else e # st)"

definition Clean :: "string \<Rightarrow> string" where
  "Clean p =
     (if p = [] then ''.''
      else (let rooted = (hd p = CHR ''/'');
                body = joinWith ''/'' (rev (foldl (cleanStep rooted) [] (splitOn CHR ''/'' p)))
            in if rooted then CHR ''/'' # body
               else if body = [] then ''.'' else body))"

definition Join2 :: "string \<Rightarrow> string \<Rightarrow> string" where
  "Join2 a b =
     (let es = filter (\<lambda>e. e \<noteq> []) [a, b]
      in if es = [] then [] else Clean (joinWith ''/'' es))"

definition Dir :: "string \<Rightarrow> string" where
  "Dir p = Clean (rev (dropWhile (\<lambda>c. c \<noteq> CHR ''/'') (rev p)))"

definition Base :: "string \<Rightarrow> string" where
  "Base p =
     (if p = [] then ''.''
      else (let q = rev (dropWhile (\<lambda>c. c = CHR ''/'') (rev p));
                r = rev (takeWhile (\<lambda>c. c \<noteq> CHR ''/'') (rev q))
            in if r = [] then ''/'' else r))"

subsection \<open>The file system collaborator\<close>

text \<open>
  What the code observes of its \<^verbatim>\<open>afero.Fs\<close>: the contents of the files, the
  matches of a glob pattern, and the errors the file system raises for a path on
  \<^verbatim>\<open>MkdirAll\<close>, on opening a file for writing and on \<^verbatim>\<open>Stat\<close>.
  \<^verbatim>\<open>afero.WriteFile\<close> creates the file if it does not exist and truncates it
  otherwise, then writes the data.
\<close>

record Fs =
  files :: "string \<rightharpoonup> string"
  globMatches :: "string \<Rightarrow> error + string list"
  mkdirAllErr :: "string \<Rightarrow> error option"
  writeFileErr :: "string \<Rightarrow> error option"
  statErr :: "string \<Rightarrow> error option"

definition ReadFile :: "Fs \<Rightarrow> string \<Rightarrow> error + string" where
  "ReadFile fs p =
     (case files fs p of
        None \<Rightarrow> Inl (External ''file does not exist'')
      | Some data \<Rightarrow> Inr data)"



subsection \<open>lookup.go: the device resolver\<close>

record DeviceFinder =
  devices :: "string \<rightharpoonup> string"

text \<open>
  The first half of the loop body of \<^verbatim>\<open>NewDeviceFinder\<close>: the address read from
  the directory \<open>d\<close>, trimmed and lower-cased; \<open>None\<close> where the source says
  \<^verbatim>\<open>continue\<close> (the file cannot be read, or the address is empty).
\<close>

definition readSas :: "Fs \<Rightarrow> string \<Rightarrow> string option" where
  "readSas fs d =
     (case ReadFile fs (Join2 d ''sas_address'') of
        Inl err \<Rightarrow> None
      | Inr sasb \<Rightarrow>
          (let sas = ToLower (TrimSpace sasb)
           in if sas = [] then None else Some sas))"

definition sgNode :: "string \<Rightarrow> string" where
  "sgNode d = ''/dev/'' @ Base (Dir d)"

fun finderLoop :: "Fs \<Rightarrow> string list \<Rightarrow> (string \<rightharpoonup> string) \<Rightarrow> string set \<Rightarrow> (string \<rightharpoonup> string) \<times> string set" where
  "finderLoop fs [] devs ignored = (devs, ignored)"
| "finderLoop fs (d # ds) devs ignored =
     (case readSas fs d of
        None \<Rightarrow> finderLoop fs ds devs ignored
      | Some sas \<Rightarrow>
          finderLoop fs ds (devs(sas \<mapsto> sgNode d))
            (if devs sas \<noteq> None then insert sas ignored else ignored))"

text \<open>
  \<^verbatim>\<open>NewDeviceFinder\<close> returns the finder together with the set of addresses it
  logged a warning for. The second loop deletes every ignored address.
\<close>

definition NewDeviceFinder :: "Fs \<Rightarrow> error + DeviceFinder \<times> string set" where
  "NewDeviceFinder fs =
     (case globMatches fs ''/sys/class/scsi_generic/sg*/device'' of
        Inl err \<Rightarrow> Inl (Wrapped ''glob failure'' err)
      | Inr matches \<Rightarrow>
          (case finderLoop fs matches Map.empty {} of
             (devs, ignored) \<Rightarrow> Inr (\<lparr>devices = devs |` (- ignored)\<rparr>, ignored)))"

definition FindDevice :: "DeviceFinder \<Rightarrow> string \<Rightarrow> string \<times> bool" where
  "FindDevice f deviceAddress =
     (case devices f deviceAddress of
        Some v \<Rightarrow> (v, True)
      | None \<Rightarrow> ([], False))"

text \<open>
  \<^verbatim>\<open>FindAddress\<close> ranges over the map in an unspecified order; the order is the
  parameter \<open>ks\<close>.
\<close>

fun FindAddress :: "string list \<Rightarrow> DeviceFinder \<Rightarrow> string \<Rightarrow> string \<times> bool" where
  "FindAddress [] f devicePath = ([], False)"
| "FindAddress (k # ks) f devicePath =
     (if devices f k = Some devicePath then (k, True) else FindAddress ks f devicePath)"

subsection \<open>The diff engine: changesAsText and buildMessage\<close>







subsection \<open>The collaborators of the standard library\<close>








subsection \<open>monitor.go: configuration and state\<close>

text \<open>A \<^verbatim>\<open>time.Duration\<close> is a number of nanoseconds.\<close>

type_synonym duration = int

record DeviceMonitorConfig =
  PollInterval :: "duration option"
  PollAttempts :: "int option"
  PollAttemptTimeout :: "duration option"
  PollAttemptInterval :: "duration option"
  PollBackoffAfter :: "int option"
  PollBackoffTime :: "duration option"
  PollBackoffNotify :: "bool option"
  PollBackoffStopMonitor :: "bool option"
  OutputDir :: "string option"
  Verbose :: "bool option"

definition seconds :: "int \<Rightarrow> duration" where
  "seconds n = n * 1000000000"

definition DefaultDeviceMonitorConfig :: DeviceMonitorConfig where
  "DefaultDeviceMonitorConfig =
     \<lparr>PollInterval = Some (seconds 90),
      PollAttempts = Some 3,
      PollAttemptTimeout = Some (seconds 15),
      PollAttemptInterval = Some (seconds 15),
      PollBackoffAfter = Some 3,
      PollBackoffTime = Some (seconds 180),
      PollBackoffNotify = Some True,
      PollBackoffStopMonitor = Some False,
      OutputDir = None,
      Verbose = Some False\<rparr>"

text \<open>\<^verbatim>\<open>mergeDeviceMonitorConfig\<close> of util.go: the user's field, or the default.\<close>

definition orDefault :: "'a option \<Rightarrow> 'a option \<Rightarrow> 'a option" where
  "orDefault user dflt = (if user \<noteq> None then user else dflt)"

definition mergeDeviceMonitorConfig :: "DeviceMonitorConfig option \<Rightarrow> error + DeviceMonitorConfig" where
  "mergeDeviceMonitorConfig userCfg =
     (case userCfg of
        None \<Rightarrow> Inr DefaultDeviceMonitorConfig
      | Some u \<Rightarrow>
          (let defaultCfg = DefaultDeviceMonitorConfig
           in if (case PollAttempts u of None \<Rightarrow> False | Some n \<Rightarrow> n \<le> 0)
              then Inl (Wrapped ''poll_attempts must be > 0'' errInvalidArgument)
              else Inr
                \<lparr>PollInterval = orDefault (PollInterval u) (PollInterval defaultCfg),
                 PollAttempts = orDefault (PollAttempts u) (PollAttempts defaultCfg),
                 PollAttemptTimeout = orDefault (PollAttemptTimeout u) (PollAttemptTimeout defaultCfg),
                 PollAttemptInterval = orDefault (PollAttemptInterval u) (PollAttemptInterval defaultCfg),
                 PollBackoffAfter = orDefault (PollBackoffAfter u) (PollBackoffAfter defaultCfg),
                 PollBackoffTime = orDefault (PollBackoffTime u) (PollBackoffTime defaultCfg),
                 PollBackoffNotify = orDefault (PollBackoffNotify u) (PollBackoffNotify defaultCfg),
                 PollBackoffStopMonitor =
                   orDefault (PollBackoffStopMonitor u) (PollBackoffStopMonitor defaultCfg),
                 OutputDir =
                   (case OutputDir u of
                      None \<Rightarrow> OutputDir defaultCfg
                    | Some dir \<Rightarrow> (if dir \<noteq> [] then Some (Clean dir) else OutputDir defaultCfg)),
                 Verbose = orDefault (Verbose u) (Verbose defaultCfg)\<rparr>))"

text \<open>
  The state of a monitor. \<open>onceDone\<close> is the \<^verbatim>\<open>sync.Once\<close> of \<^verbatim>\<open>Stop\<close>,
  \<open>stopClosed\<close> and \<open>doneClosed\<close> say whether the two channels are closed, and
  \<open>previousResults\<close> is \<open>None\<close> for the nil map.
\<close>

record deviceMonitorState =
  pollFailures :: int
  lastAlertHash :: string
  previousResults :: "(string \<rightharpoonup> Result) option"
  onceDone :: bool
  stopClosed :: bool
  doneClosed :: bool

definition newDeviceMonitorState :: deviceMonitorState where
  "newDeviceMonitorState =
     \<lparr>pollFailures = 0, lastAlertHash = [], previousResults = None,
      onceDone = False, stopClosed = False, doneClosed = False\<rparr>"

text \<open>A notifier is known by its name and its printed configuration.\<close>

record Notifier =
  nt_Name :: string
  nt_Config :: string

text \<open>
  The monitor. The logger is the list of events a method returns; the command runner
  is behind the outcome of \<^verbatim>\<open>fetchFromDevice\<close>, an input of \<^verbatim>\<open>poll\<close>.
\<close>

record DeviceMonitor =
  device :: Device
  fsys :: Fs
  notifier :: "Notifier option"
  cfg :: DeviceMonitorConfig
  state :: deviceMonitorState

text \<open>
  What a method writes to the log, and the tasks it starts. The messages of
  \<^verbatim>\<open>pollFailure\<close> are kept with their arguments: the failure count, the
  threshold, the back-off time and the error.
\<close>

datatype backoffMessage =
    StoppingMonitor int int error
  | EnteringBackoff int int duration error

datatype notifyMessage =
    AlertMessage string
  | BackoffMessage backoffMessage

datatype event =
    LogInitial nat
  | LogBatch nat
  | LogNoChanges
  | LogChanges nat
  | LogSkipDuplicate
  | LogAlert string
  | LogSnapshotError string error
  | LogMarshalError error
  | LogReportError error
  | LogPollError int int error
  | LogBackoff backoffMessage
  | LogShutdown
  | LogPanic
  | GoNotify notifyMessage "ChangeReport option"

text \<open>
  \<^verbatim>\<open>NewDeviceMonitor\<close>. Its callers in the package pass a file system, a runner
  and a logger that are not nil, so the first check of the source never fires and is
  left out.
\<close>

definition NewDeviceMonitor ::
  "Device \<Rightarrow> DeviceMonitorConfig option \<Rightarrow> Fs \<Rightarrow> Notifier option \<Rightarrow> error + DeviceMonitor" where
  "NewDeviceMonitor dev userCfg fs nt =
     (if dev_Path dev = [] then Inl (Wrapped ''no device provided'' errInvalidArgument)
      else (case statErr fs (dev_Path dev) of
              Some err \<Rightarrow> Inl (WrappedBoth ''stat device failure'' errInvalidArgument err)
            | None \<Rightarrow>
                (case mergeDeviceMonitorConfig userCfg of
                   Inl err \<Rightarrow> Inl (Wrapped ''configuration failure'' err)
                 | Inr mcfg \<Rightarrow>
                     Inr \<lparr>device = dev, fsys = fs, notifier = nt, cfg = mcfg,
                          state = newDeviceMonitorState\<rparr>)))"

text \<open>
  \<^verbatim>\<open>Stop\<close>: the function under the \<^verbatim>\<open>sync.Once\<close> logs and closes the stop
  channel; closing a channel that is already closed panics.
\<close>

definition Stop :: "DeviceMonitor \<Rightarrow> unit outcome \<times> DeviceMonitor \<times> event list" where
  "Stop d =
     (if onceDone (state d) then (Ok (), d, [])
      else if stopClosed (state d)
        then (Panic, d\<lparr>state := (state d)\<lparr>onceDone := True\<rparr>\<rparr>, [LogShutdown])
        else (Ok (), d\<lparr>state := (state d)\<lparr>onceDone := True, stopClosed := True\<rparr>\<rparr>, [LogShutdown]))"

subsection \<open>write.go: snapshots and change reports\<close>





subsection \<open>monitor.go: poll, handleAlert and pollFailure\<close>











text \<open>
  \<^verbatim>\<open>pollFailure\<close>. \<open>ctxDone\<close> says whether the context is done when the method
  starts; \<open>wake\<close> is the branch the \<^verbatim>\<open>select\<close> of the back-off wait takes. A stop
  channel seen closed during the wait was closed by a call of \<^verbatim>\<open>Stop\<close> elsewhere.
\<close>

datatype wake = CtxDone | StopClosed | TimerFired

definition backoffWait :: "wake \<Rightarrow> DeviceMonitor \<Rightarrow> DeviceMonitor" where
  "backoffWait wk d =
     (case wk of
        CtxDone \<Rightarrow> d
      | StopClosed \<Rightarrow> d\<lparr>state := (state d)\<lparr>onceDone := True, stopClosed := True\<rparr>\<rparr>
      | TimerFired \<Rightarrow> d\<lparr>state := (state d)\<lparr>pollFailures := 0\<rparr>\<rparr>)"

text \<open>
  The message of the back-off (the back-off time is read only when the monitor is not
  to be stopped) and the condition \<^verbatim>\<open>d.notifier != nil && *d.cfg.PollBackoffNotify\<close>
  (the flag is read only when there is a notifier); \<open>None\<close> is a nil pointer.
\<close>

definition backoffText :: "DeviceMonitor \<Rightarrow> bool \<Rightarrow> int \<Rightarrow> error \<Rightarrow> backoffMessage option" where
  "backoffText d stopMonitor after err =
     (if stopMonitor then Some (StoppingMonitor (pollFailures (state d)) after err)
      else (case PollBackoffTime (cfg d) of
              None \<Rightarrow> None
            | Some bt \<Rightarrow> Some (EnteringBackoff (pollFailures (state d)) after bt err)))"

definition backoffNotify :: "DeviceMonitor \<Rightarrow> bool option" where
  "backoffNotify d = (if notifier d \<noteq> None then PollBackoffNotify (cfg d) else Some False)"

definition pollBackoff ::
  "wake \<Rightarrow> DeviceMonitor \<Rightarrow> int \<Rightarrow> error \<Rightarrow> unit outcome \<times> DeviceMonitor \<times> event list" where
  "pollBackoff wk d after err =
     (case PollBackoffStopMonitor (cfg d) of
        None \<Rightarrow> (Panic, d, [])
      | Some stopMonitor \<Rightarrow>
          (case backoffText d stopMonitor after err of
             None \<Rightarrow> (Panic, d, [])
           | Some msg \<Rightarrow>
               (case backoffNotify d of
                  None \<Rightarrow> (Panic, d, [LogBackoff msg])
                | Some notify \<Rightarrow>
                    (let ev = LogBackoff msg #
                              (if notify then [GoNotify (BackoffMessage msg) None] else [])
                     in if stopMonitor
                        then (case Stop d of (r, d1, ev1) \<Rightarrow> (r, d1, ev @ ev1))
                        else (Ok (), backoffWait wk d, ev)))))"

definition pollFailure ::
  "bool \<Rightarrow> wake \<Rightarrow> DeviceMonitor \<Rightarrow> error \<Rightarrow> unit outcome \<times> DeviceMonitor \<times> event list" where
  "pollFailure ctxDone wk d err =
     (if ctxDone \<or> stopClosed (state d) then (Ok (), d, [])
      else (let d1 = d\<lparr>state := (state d)\<lparr>pollFailures := pollFailures (state d) + 1\<rparr>\<rparr>
            in case PollBackoffAfter (cfg d1) of
                 None \<Rightarrow> (Panic, d1, [])
               | Some after \<Rightarrow>
                   (if pollFailures (state d1) < after
                    then (Ok (), d1, [LogPollError (pollFailures (state d1)) after err])
                    else pollBackoff wk d1 after err)))"

subsection \<open>monitor.go: the polling loop of Start\<close>








subsection \<open>The supervisor: configuration\<close>

record ScriptNotifierConfig =
  NotifyAttempts :: "int option"
  NotifyAttemptTimeout :: "duration option"
  NotifyAttemptInterval :: "duration option"

record ScriptNotifierYAML =
  sn_Script :: string
  sn_Config :: "ScriptNotifierConfig option"

text \<open>
  A device entry of the YAML configuration. A key that is absent from the document
  leaves the zero value of its field: \<open>Enabled\<close> is then \<open>False\<close>.
\<close>

record DeviceYAML =
  dy_Device :: string
  dy_Address :: string
  dy_Description :: string
  dy_Type :: int
  Enabled :: bool
  MonitorConfig :: "DeviceMonitorConfig option"
  ScriptNotifier :: "ScriptNotifierYAML option"

record ConfigYAML =
  DisableTimestamps :: bool
  Devices :: "DeviceYAML list"

text \<open>The interface \<^verbatim>\<open>DeviceLookuper\<close>, and the \<^verbatim>\<open>DeviceFinder\<close> as one.\<close>

record DeviceLookuper =
  lk_FindAddress :: "string \<Rightarrow> string \<times> bool"
  lk_FindDevice :: "string \<Rightarrow> string \<times> bool"

definition lookuperOf :: "string list \<Rightarrow> DeviceFinder \<Rightarrow> DeviceLookuper" where
  "lookuperOf ks f = \<lparr>lk_FindAddress = FindAddress ks f, lk_FindDevice = FindDevice f\<rparr>"

record Program =
  monitors :: "string \<rightharpoonup> DeviceMonitor"

text \<open>The lines the supervisor logs while it resolves the devices.\<close>

datatype plog =
    LogResolved string string
  | LogNotFoundUsingPath string
  | LogNoTableUsingPath string
  | LogConsiderAddress string string
  | LogLookupUnavailable error
  | LogAmbiguousAddresses "string set"

text \<open>
  What \<^verbatim>\<open>NewProgram\<close> takes from outside the sources at hand: the YAML decoder,
  the file system of the operating system, the constructor \<^verbatim>\<open>NewScriptNotifier\<close>,
  and the order in which a \<^verbatim>\<open>DeviceFinder\<close> ranges over its map.
\<close>

record progEnv =
  yamlDecode :: "string \<Rightarrow> error + ConfigYAML"
  osFs :: Fs
  NewScriptNotifier :: "string \<Rightarrow> ScriptNotifierConfig option \<Rightarrow> Fs \<Rightarrow> error + Notifier"
  finderKeys :: "string list"

subsection \<open>The supervisor: lookupDevice, setupDeviceMonitor and NewProgram\<close>

definition lookupDevice :: "DeviceYAML \<Rightarrow> DeviceLookuper option \<Rightarrow> error + DeviceYAML \<times> plog list" where
  "lookupDevice deviceCfg finder =
     (if dy_Address deviceCfg \<noteq> [] then
        (case finder of
           Some f \<Rightarrow>
             (case lk_FindDevice f (dy_Address deviceCfg) of
                (dev, True) \<Rightarrow>
                  Inr (deviceCfg\<lparr>dy_Device := dev\<rparr>, [LogResolved (dy_Address deviceCfg) dev])
              | (dev, False) \<Rightarrow>
                  (if dy_Device deviceCfg = []
                   then Inl (Wrapped ''SAS address is not resolvable (not found)'' errDeviceLookupFailed)
                   else Inr (deviceCfg\<lparr>dy_Address := []\<rparr>,
                             [LogNotFoundUsingPath (dy_Address deviceCfg)])))
         | None \<Rightarrow>
             (if dy_Device deviceCfg = []
              then Inl (Wrapped ''SAS address is not resolvable (no lookup table)'' errDeviceLookupFailed)
              else Inr (deviceCfg\<lparr>dy_Address := []\<rparr>, [LogNoTableUsingPath (dy_Address deviceCfg)])))
      else if dy_Device deviceCfg \<noteq> [] \<and> finder \<noteq> None then
        (case lk_FindAddress (the finder) (dy_Device deviceCfg) of
           (addr, True) \<Rightarrow>
             Inr (deviceCfg\<lparr>dy_Address := addr\<rparr>, [LogConsiderAddress (dy_Device deviceCfg) addr])
         | (addr, False) \<Rightarrow> Inr (deviceCfg, []))
      else Inr (deviceCfg, []))"

definition setupDeviceMonitor :: "progEnv \<Rightarrow> DeviceYAML \<Rightarrow> Fs \<Rightarrow> error + DeviceMonitor" where
  "setupDeviceMonitor P deviceCfg fs =
     (case (case ScriptNotifier deviceCfg of
              None \<Rightarrow> Inr None
            | Some sn \<Rightarrow>
                (case NewScriptNotifier P (sn_Script sn) (sn_Config sn) fs of
                   Inl err \<Rightarrow> Inl (Wrapped ''failure creating notification agent'' err)
                 | Inr n \<Rightarrow> Inr (Some n))) of
        Inl err \<Rightarrow> Inl err
      | Inr nt \<Rightarrow>
          (case NewDeviceMonitor
                  \<lparr>dev_Type = dy_Type deviceCfg, dev_Path = dy_Device deviceCfg,
                   dev_Address = dy_Address deviceCfg, dev_Description = dy_Description deviceCfg\<rparr>
                  (MonitorConfig deviceCfg) fs nt of
             Inl err \<Rightarrow> Inl (Wrapped ''failure creating monitoring agent'' err)
           | Inr monitor \<Rightarrow> Inr monitor))"

text \<open>
  The output directory a device entry asks for, when its monitor configuration is
  present and names one.
\<close>

definition outputDirOf :: "DeviceYAML \<Rightarrow> string option" where
  "outputDirOf deviceCfg =
     (case MonitorConfig deviceCfg of None \<Rightarrow> None | Some mc \<Rightarrow> OutputDir mc)"

text \<open>
  The loop of \<^verbatim>\<open>NewProgram\<close> over the device entries with their indices, with the
  set \<^verbatim>\<open>seenOutputDirs\<close>, the monitors created so far and the lines logged so far.
  It returns the monitors or the error, and the log.
\<close>

fun programLoop ::
  "progEnv \<Rightarrow> Fs \<Rightarrow> DeviceLookuper option \<Rightarrow> (nat \<times> DeviceYAML) list \<Rightarrow> string set \<Rightarrow>
   (string \<rightharpoonup> DeviceMonitor) \<Rightarrow> plog list \<Rightarrow> (error + (string \<rightharpoonup> DeviceMonitor)) \<times> plog list" where
  "programLoop P fs finder [] seen mons logs = (Inr mons, logs)"
| "programLoop P fs finder ((i, deviceCfg) # rest) seen mons logs =
     (if \<not> Enabled deviceCfg then programLoop P fs finder rest seen mons logs
      else if dy_Device deviceCfg = [] \<and> dy_Address deviceCfg = []
        then (Inl (AtConfig i (Wrapped ''missing device and address'' errInvalidArgument)), logs)
      else if (case outputDirOf deviceCfg of None \<Rightarrow> False | Some dir \<Rightarrow> dir \<in> seen)
        then (Inl (AtConfig i (Wrapped ''cannot use same output directory for multiple devices''
                    errInvalidArgument)), logs)
      else (case lookupDevice deviceCfg finder of
              Inl err \<Rightarrow> (Inl (AtConfig i err), logs)
            | Inr (resolved, lg) \<Rightarrow>
                (if mons (dy_Device resolved) \<noteq> None
                 then (Inl (AtConfig i (Wrapped ''cannot monitor multiple times'' errInvalidArgument)),
                       logs @ lg)
                 else (case setupDeviceMonitor P resolved fs of
                         Inl err \<Rightarrow> (Inl (AtConfig i err), logs @ lg)
                       | Inr monitor \<Rightarrow>
                           programLoop P fs finder rest
                             (case outputDirOf deviceCfg of None \<Rightarrow> seen | Some dir \<Rightarrow> insert dir seen)
                             (mons(dy_Device resolved \<mapsto> monitor)) (logs @ lg)))))"

definition chooseFinder :: "progEnv \<Rightarrow> Fs \<Rightarrow> DeviceLookuper option \<Rightarrow> DeviceLookuper option \<times> plog list" where
  "chooseFinder P fs d =
     (case d of
        Some l \<Rightarrow> (Some l, [])
      | None \<Rightarrow>
          (case NewDeviceFinder fs of
             Inl err \<Rightarrow> (None, [LogLookupUnavailable err])
           | Inr (df, warned) \<Rightarrow>
               (Some (lookuperOf (finderKeys P) df),
                if warned = {} then [] else [LogAmbiguousAddresses warned])))"

definition NewProgram ::
  "progEnv \<Rightarrow> string \<Rightarrow> Fs option \<Rightarrow> DeviceLookuper option \<Rightarrow> (error + Program) \<times> plog list" where
  "NewProgram P yamlConfig f d =
     (case yamlDecode P yamlConfig of
        Inl err \<Rightarrow> (Inl (Wrapped ''failure parsing YAML'' err), [])
      | Inr config \<Rightarrow>
          (if Devices config = [] then (Inl errNoDevices, [])
           else (let fs = (case f of Some x \<Rightarrow> x | None \<Rightarrow> osFs P)
                 in case chooseFinder P fs d of
                      (finder, lg) \<Rightarrow>
                        (case programLoop P fs finder (enumerate 0 (Devices config)) {} Map.empty lg of
                           (Inl err, logs) \<Rightarrow> (Inl err, logs)
                         | (Inr mons, logs) \<Rightarrow> (Inr \<lparr>monitors = mons\<rparr>, logs)))))"

subsection \<open>The words of the specification, for comparison with the code\<close>


text \<open>
  A key whose pair is unequal: it is missing from one of the two maps, or its two
  rows are not equal under \<open>rowsEqual\<close>.
\<close>

definition unequalPair :: "(string \<rightharpoonup> Result) \<Rightarrow> (string \<rightharpoonup> Result) \<Rightarrow> string \<Rightarrow> bool" where
  "unequalPair prev cur k =
     (case (prev k, cur k) of
        (Some p, Some c) \<Rightarrow> \<not> rowsEqual p c
      | _ \<Rightarrow> True)"

text \<open>The changes of a diff that carry the key \<open>k\<close> as their id.\<close>

definition changesFor :: "string \<Rightarrow> Change list \<Rightarrow> Change list" where
  "changesFor k chs = filter (\<lambda>c. ch_ID c = k) chs"

text \<open>
  The callback of \<^verbatim>\<open>withRetries\<close>, when there is one, applied to a world.
\<close>

definition applyCallback :: "(int \<Rightarrow> error \<Rightarrow> 'w \<Rightarrow> 'w) option \<Rightarrow> int \<Rightarrow> error \<Rightarrow> 'w \<Rightarrow> 'w" where
  "applyCallback cb n e w = (case cb of None \<Rightarrow> w | Some g \<Rightarrow> g n e w)"

text \<open>
  What a run of the loop of \<^verbatim>\<open>withRetries\<close> may record: \<open>new\<close> lists the results
  of the invocations of the operation in the run, \<open>cnt\<close> and \<open>r\<close> are the returned
  count and error, \<open>n\<close> the iterations the run had left, \<open>attempt\<close> and \<open>e\<close> the
  count and error it started from.
\<close>

definition recordedOk ::
  "nat \<Rightarrow> int \<Rightarrow> error option \<Rightarrow> int \<Rightarrow> error option \<Rightarrow> error option list \<Rightarrow> bool" where
  "recordedOk n attempt e cnt r new =
     (cnt = attempt + int (length new) \<and> length new \<le> n \<and>
      None \<notin> set (butlast new) \<and>
      (new \<noteq> [] \<and> last new = None \<longrightarrow> r = None) \<and>
      (r = None \<longrightarrow> (new \<noteq> [] \<and> last new = None) \<or> (new = [] \<and> e = None \<and> n = 0)) \<and>
      (length new = n \<longrightarrow> r = (if new = [] then e else last new)) \<and>
      (length new < n \<longrightarrow> r = None \<or> (\<exists>err. r = Some (Wrapped ''context error'' err))))"

text \<open>
  The address \<open>a\<close> is observed on the device directory \<open>d\<close>: the file
  \<^verbatim>\<open>sas_address\<close> of \<open>d\<close> can be read and its content, trimmed and lower-cased,
  is \<open>a\<close>, which is not empty.
\<close>

definition observedOn :: "Fs \<Rightarrow> string \<Rightarrow> string \<Rightarrow> bool" where
  "observedOn fs a d =
     (case files fs (Join2 d ''sas_address'') of
        None \<Rightarrow> False
      | Some sasb \<Rightarrow> ToLower (TrimSpace sasb) = a \<and> a \<noteq> [])"

subsection \<open>Documents used below\<close>

text \<open>
  The decoded form of
  \<^verbatim>\<open>{"join_of_diagnostic_pages":{"element_list":[{"element_number":5}]}}\<close>:
  one element with no \<^verbatim>\<open>element_type\<close> object at all.
\<close>

definition docNoElementType :: Root where
  "docNoElementType =
     \<lparr>Join = \<lparr>ElementList =
        [\<lparr>el_ElementType = None, el_ElementNumber = Some 5, el_StatusDescriptor = None\<rparr>]\<rparr>\<rparr>"

text \<open>
  The decoded form of a document whose only element is
  \<^verbatim>\<open>{"element_type":{"i":23},"element_number":1,
   "status_descriptor":{"temperature":{"i":25}}}\<close>:
  a temperature object without a \<^verbatim>\<open>meaning\<close> field.
\<close>

definition docTemperatureNoMeaning :: Root where
  "docTemperatureNoMeaning =
     \<lparr>Join = \<lparr>ElementList =
        [\<lparr>el_ElementType = Some \<lparr>et_I = Some 23, et_Meaning = None\<rparr>,
          el_ElementNumber = Some 1,
          el_StatusDescriptor = Some
            \<lparr>sd_Status = None, sd_PrdFail = None, sd_Disabled = None, sd_Swap = None,
             sd_Temperature = Some \<lparr>cm_I = Some 25, cm_Meaning = None\<rparr>,
             sd_Voltage = None, sd_Current = None\<rparr>\<rparr>]\<rparr>\<rparr>"

text \<open>A row of an enclosure element, status 1 "OK", and the same row with status 2.\<close>

definition rowOK :: Result where
  "rowOK = zeroResult\<lparr>Type := 15, TypeNum := 0, TypeDesc := Some ''Enclosure'',
     Status := Some 1, StatusDesc := Some ''OK'', Temperature := Some ''25 C''\<rparr>"

definition rowCritical :: Result where
  "rowCritical = rowOK\<lparr>Status := Some 2, StatusDesc := Some ''Critical''\<rparr>"

text \<open>
  A \<^verbatim>\<open>/sys\<close> tree with three generic SCSI devices: \<^verbatim>\<open>sg0\<close> and \<^verbatim>\<open>sg1\<close>
  expose the same SAS address (in different case and with white space), \<^verbatim>\<open>sg2\<close>
  another one.
\<close>

definition sysfs3 :: Fs where
  "sysfs3 =
     \<lparr>files = [''/sys/class/scsi_generic/sg0/device/sas_address'' \<mapsto> ''0x5000C50098765432'',
               ''/sys/class/scsi_generic/sg1/device/sas_address'' \<mapsto> '' 0x5000c50098765432 '',
               ''/sys/class/scsi_generic/sg2/device/sas_address'' \<mapsto> ''0x5000c50098765433''],
      globMatches = (\<lambda>p. Inr [''/sys/class/scsi_generic/sg0/device'',
                              ''/sys/class/scsi_generic/sg1/device'',
                              ''/sys/class/scsi_generic/sg2/device'']),
      mkdirAllErr = (\<lambda>p. None), writeFileErr = (\<lambda>p. None), statErr = (\<lambda>p. None)\<rparr>"

text \<open>
  Worlds for \<^verbatim>\<open>withRetries\<close>: a counter of the invocations, a context that is never
  cancelled, a context that is cancelled from the start, and an operation that always
  fails.
\<close>

definition ctxLive :: "nat retryContext" where
  "ctxLive = \<lparr>ctxErr = (\<lambda>w. None), selectDone = (\<lambda>i w. (None, w))\<rparr>"

definition ctxCancelled :: "nat retryContext" where
  "ctxCancelled =
     \<lparr>ctxErr = (\<lambda>w. Some (External ''context canceled'')),
      selectDone = (\<lambda>i w. (Some (External ''context canceled''), w))\<rparr>"

definition opFail :: "nat \<Rightarrow> error option \<times> nat" where
  "opFail w = (Some (External ''boom''), Suc w)"

subsection \<open>Alerts in the log of a monitor\<close>











subsection \<open>A monitor used below\<close>

text \<open>
  An empty file system that raises no error; a decoder that knows two documents by
  name, an encoder that prints the number of changes and the time of detection, a
  constant digest; a device, a clock reading, and two reports detected in the same
  second.
\<close>

definition memFs :: Fs where
  "memFs = \<lparr>files = Map.empty, globMatches = (\<lambda>p. Inr []), mkdirAllErr = (\<lambda>p. None),
     writeFileErr = (\<lambda>p. None), statErr = (\<lambda>p. None)\<rparr>"




definition sg25 :: Device where
  "sg25 = \<lparr>dev_Type = 0, dev_Path = ''/dev/sg25'', dev_Address = [], dev_Description = ''test-device''\<rparr>"





text \<open>
  A monitor that writes to \<^verbatim>\<open>/output\<close>, and a monitor with a notifier that has
  seen the enclosure in state OK; a poll that fetches the document with the critical
  state.
\<close>

definition monitorOut :: DeviceMonitor where
  "monitorOut =
     \<lparr>device = sg25, fsys = memFs, notifier = None,
      cfg = DefaultDeviceMonitorConfig\<lparr>OutputDir := Some ''/output''\<rparr>,
      state = newDeviceMonitorState\<rparr>"



subsection \<open>Entries of a configuration\<close>

text \<open>The entries of a device list that are enabled, with their indices.\<close>

definition enabledEntries :: "(nat \<times> DeviceYAML) list \<Rightarrow> (nat \<times> DeviceYAML) list" where
  "enabledEntries xs = filter (\<lambda>(i, deviceCfg). Enabled deviceCfg) xs"

text \<open>
  An entry that is disabled and invalid in three ways (no device, no address, zero
  poll attempts), and a supervisor environment whose configuration has this entry
  only.
\<close>

definition brokenEntry :: DeviceYAML where
  "brokenEntry =
     \<lparr>dy_Device = [], dy_Address = [], dy_Description = ''not wired yet'', dy_Type = 0,
      Enabled = False,
      MonitorConfig = Some (DefaultDeviceMonitorConfig\<lparr>PollAttempts := Some 0\<rparr>),
      ScriptNotifier = None\<rparr>"

definition progDemo :: progEnv where
  "progDemo =
     \<lparr>yamlDecode = (\<lambda>b. Inr \<lparr>DisableTimestamps = False, Devices = [brokenEntry]\<rparr>),
      osFs = memFs,
      NewScriptNotifier = (\<lambda>script c fs. Inl (External ''not executable'')),
      finderKeys = []\<rparr>"

section \<open>Properties\<close>

subsection \<open>Evaluation of the string helpers\<close>

lemma Itoa_small:
  "Itoa 0 = ''0''" "Itoa 1 = ''1''" "Itoa 5 = ''5''" "Itoa 15 = ''15''" "Itoa 23 = ''23''"
  by (simp_all add: Itoa_def natDigits.simps digitChar_def)

lemma EqualFold_refl: "EqualFold s s"
  by (induction s) simp_all

lemma EqualFold_OK: "EqualFold ''OK'' ''ok''"
  by (simp add: foldPair_def)

subsection \<open>Nil-safe comparison\<close>



lemma ptrIntEqual_refl: "ptrIntEqual a a"
  by (simp add: ptrIntEqual_def)

lemma ptrStrEqualFold_refl: "ptrStrEqualFold a a"
  by (simp add: ptrStrEqualFold_def EqualFold_refl)

lemma rowsEqual_refl: "rowsEqual a a"
  by (simp add: rowsEqual_def ptrIntEqual_refl ptrStrEqualFold_refl)

subsection \<open>What the loop of rowsDiff collects\<close>

lemma changesFor_Nil: "changesFor k [] = []"
  by (simp add: changesFor_def)

lemma changesFor_rowsDiffLoop:
  "changesFor k (rowsDiffLoop prev cur ks out) =
     changesFor k out @ map (mkChange prev cur) (filter (\<lambda>k'. k' = k \<and> differs prev cur k') ks)"
  by (induction ks arbitrary: out) (auto simp: changesFor_def mkChange_def Let_def)

lemma filter_eq_distinct:
  "distinct ks \<Longrightarrow> k \<in> set ks \<Longrightarrow> filter (\<lambda>k'. k' = k \<and> P k') ks = (if P k then [k] else [])"
  by (induction ks) (auto simp: filter_empty_conv)

lemma changesFor_rowsDiff:
  assumes "distinct ks" and "k \<in> set ks"
  shows "changesFor k (rowsDiff ks prev cur) =
           (if differs prev cur k then [mkChange prev cur k] else [])"
  using assms
  by (simp add: rowsDiff_def changesFor_rowsDiffLoop filter_eq_distinct changesFor_Nil)


lemma rowsDiffLoop_same: "(\<forall>k \<in> set ks. \<not> differs prev cur k) \<Longrightarrow> rowsDiffLoop prev cur ks out = out"
  by (induction ks arbitrary: out) simp_all

lemma differs_unequalPair: "differs prev cur k = unequalPair prev cur k"
  by (cases "prev k"; cases "cur k") (simp_all add: differs_def unequalPair_def lookupOrZero_def)

lemma differs_self: "k \<in> dom a \<Longrightarrow> \<not> differs a a k"
  by (auto simp: differs_def lookupOrZero_def rowsEqual_refl)


subsection \<open>The parser\<close>

text \<open>
  An element without a number, or with a type that carries no \<^verbatim>\<open>i\<close>, is skipped;
  and the only error of the parser is the one of the decoder, wrapped.
\<close>

lemma parseElement_without_number: "el_ElementNumber el = None \<Longrightarrow> parseElement el = Ok None"
  by (simp add: parseElement_def parseElementNumber_def split: option.splits)

lemma parseElement_without_type_i:
  "el_ElementType el = Some et \<Longrightarrow> et_I et = None \<Longrightarrow> parseElement el = Ok None"
  by (simp add: parseElement_def parseElementType_def)

lemma parseStatusDescriptor_no_error: "parseStatusDescriptor el r \<noteq> Err e"
  by (auto simp: parseStatusDescriptor_def parseTemperature_def parseVoltage_def parseCurrent_def
      split: option.splits outcome.splits)

lemma parseElement_no_error: "parseElement el \<noteq> Err e"
  using parseStatusDescriptor_no_error
  by (auto simp: parseElement_def split: option.splits outcome.splits)

lemma parseLoop_no_error: "parseLoop els m \<noteq> Err e"
proof (induction els arbitrary: m)
  case Nil
  show ?case by simp
next
  case (Cons el els)
  show ?case
  proof (cases "parseElement el")
    case (Ok r)
    with Cons.IH show ?thesis by (cases r) simp_all
  next
    case (Err e')
    with parseElement_no_error show ?thesis by blast
  next
    case Panic
    then show ?thesis by simp
  qed
qed

lemma parseSES_error_iff:
  "parseSES unmarshal b = Err e \<longleftrightarrow>
     (\<exists>e'. unmarshal b = Inl e' \<and> e = Wrapped ''failure unmarshalling JSON'' e')"
  using parseLoop_no_error by (auto simp: parseSES_def split: sum.splits)

text \<open>
  Claim C1. The specification says that every element lacking \<^verbatim>\<open>element_type.i\<close>
  or \<^verbatim>\<open>element_number\<close> is absent from the map of \<^verbatim>\<open>parseSES\<close>, also an
  element whose \<^verbatim>\<open>element_type\<close> object is entirely absent. The code skips an
  element whose \<^verbatim>\<open>element_type\<close> object is present without \<^verbatim>\<open>i\<close>, but an
  element with no \<^verbatim>\<open>element_type\<close> object and an \<^verbatim>\<open>element_number\<close> is stored,
  with type 0: the document with the single element \<^verbatim>\<open>{"element_number":5}\<close>
  yields the one entry \<^verbatim>\<open>0#5\<close>.
\<close>

theorem parseSES_element_without_type_is_stored:
  assumes "unmarshal b = Inr docNoElementType"
  shows "parseSES unmarshal b = Ok [''0#5'' \<mapsto> zeroResult\<lparr>TypeNum := 5\<rparr>]"
  using assms
  by (simp add: parseSES_def docNoElementType_def parseElement_def parseElementType_def
      parseElementNumber_def parseStatusDescriptor_def keyFor_def Itoa_small zeroResult_def)

theorem parseSES_element_without_type_is_stored_witness:
  "parseSES (\<lambda>_. Inr docNoElementType) [] = Ok [''0#5'' \<mapsto> zeroResult\<lparr>TypeNum := 5\<rparr>]"
  using parseSES_element_without_type_is_stored [of "\<lambda>_. Inr docNoElementType" "[]"]
  by simp

text \<open>
  Claim C5. The specification says that \<^verbatim>\<open>parseSES\<close> never crashes and succeeds on
  every well-formed document, also when a temperature object has no \<^verbatim>\<open>meaning\<close>
  field. The code dereferences \<^verbatim>\<open>Temperature.Meaning\<close> without a nil check: on
  such a document \<^verbatim>\<open>parseSES\<close> panics.
\<close>

theorem parseSES_temperature_without_meaning_panics:
  assumes "unmarshal b = Inr docTemperatureNoMeaning"
  shows "parseSES unmarshal b = Panic"
  using assms
  by (simp add: parseSES_def docTemperatureNoMeaning_def parseElement_def parseElementType_def
      parseElementNumber_def parseStatusDescriptor_def parseTemperature_def)

theorem parseSES_temperature_without_meaning_panics_witness:
  "parseSES (\<lambda>_. Inr docTemperatureNoMeaning) [] = Panic"
  using parseSES_temperature_without_meaning_panics [of "\<lambda>_. Inr docTemperatureNoMeaning" "[]"]
  by simp

subsection \<open>Equality of rows\<close>



subsection \<open>Completeness of the diff\<close>

text \<open>
  Claim C3. For all result maps \<open>prev\<close> and \<open>cur\<close>, whatever the order in which the
  keys are visited, and for every key of their union: the diff contains exactly one
  change with that key as its id if and only if the key is missing from one of the
  two maps or its two rows are unequal under \<open>rowsEqual\<close>, and it contains no change
  for a key whose pair is equal. In particular the diff of a map with itself is
  empty.
\<close>

theorem rowsDiff_exactly_one_iff:
  assumes "seenKeys prev cur ks"
  shows "(\<forall>k \<in> dom prev \<union> dom cur.
            (length (changesFor k (rowsDiff ks prev cur)) = 1 \<longleftrightarrow> unequalPair prev cur k) \<and>
            (\<not> unequalPair prev cur k \<longrightarrow> changesFor k (rowsDiff ks prev cur) = [])) \<and>
         (prev = cur \<longrightarrow> rowsDiff ks prev cur = [])"
proof -
  from assms have d: "distinct ks" and s: "set ks = dom prev \<union> dom cur"
    by (simp_all add: seenKeys_def)
  have each: "(length (changesFor k (rowsDiff ks prev cur)) = 1 \<longleftrightarrow> unequalPair prev cur k) \<and>
            (\<not> unequalPair prev cur k \<longrightarrow> changesFor k (rowsDiff ks prev cur) = [])"
    if "k \<in> dom prev \<union> dom cur" for k
  proof -
    from that s have "k \<in> set ks" by simp
    with d have "changesFor k (rowsDiff ks prev cur) =
           (if differs prev cur k then [mkChange prev cur k] else [])"
      by (rule changesFor_rowsDiff)
    then show ?thesis by (simp add: differs_unequalPair)
  qed
  have same: "rowsDiff ks prev cur = []" if "prev = cur"
  proof -
    from that s have "\<forall>k \<in> set ks. \<not> differs prev cur k"
      using differs_self [of _ cur] by auto
    then show ?thesis by (simp add: rowsDiff_def rowsDiffLoop_same)
  qed
  from each same show ?thesis by blast
qed

theorem rowsDiff_exactly_one_iff_witness:
  "seenKeys [''15#0'' \<mapsto> rowOK] [''15#0'' \<mapsto> rowCritical] [''15#0''] \<and>
   ''15#0'' \<in> dom [''15#0'' \<mapsto> rowOK] \<union> dom [''15#0'' \<mapsto> rowCritical] \<and>
   unequalPair [''15#0'' \<mapsto> rowOK] [''15#0'' \<mapsto> rowCritical] ''15#0'' \<and>
   length (changesFor ''15#0'' (rowsDiff [''15#0''] [''15#0'' \<mapsto> rowOK] [''15#0'' \<mapsto> rowCritical])) = 1"
proof -
  have h: "seenKeys [''15#0'' \<mapsto> rowOK] [''15#0'' \<mapsto> rowCritical] [''15#0'']"
    by (simp add: seenKeys_def)
  have u: "unequalPair [''15#0'' \<mapsto> rowOK] [''15#0'' \<mapsto> rowCritical] ''15#0''"
    by (simp add: unequalPair_def rowsEqual_def rowOK_def rowCritical_def zeroResult_def ptrIntEqual_def)
  from rowsDiff_exactly_one_iff [OF h] h u show ?thesis by simp
qed

subsection \<open>The retry utility\<close>

text \<open>One iteration of the loop over the recording world, case by case.\<close>

lemma lifted_cancelled:
  "ctxErr ctx w = Some err \<Longrightarrow>
   retryLoop (liftContext ctx) (recording f) (liftCallback cb) attempts interval (Suc n) attempt e (w, tr)
     = ((attempt, Some (Wrapped ''context error'' err)), (w, tr))"
  by (simp add: liftContext_def)

lemma lifted_success:
  "ctxErr ctx w = None \<Longrightarrow> f w = (None, w1) \<Longrightarrow>
   retryLoop (liftContext ctx) (recording f) (liftCallback cb) attempts interval (Suc n) attempt e (w, tr)
     = ((attempt + 1, None), (w1, tr @ [None]))"
  by (simp add: liftContext_def recording_def)

lemma lifted_callback:
  "(case liftCallback cb of None \<Rightarrow> (w1, tr1) | Some g \<Rightarrow> g a err (w1, tr1))
     = (applyCallback cb a err w1, tr1)"
  by (cases cb) (simp_all add: liftCallback_def applyCallback_def)

lemma lifted_wait_cancelled:
  "ctxErr ctx w = None \<Longrightarrow> f w = (Some err, w1) \<Longrightarrow> attempt + 1 < attempts \<Longrightarrow>
   selectDone ctx interval (applyCallback cb (attempt + 1) err w1) = (Some cerr, w3) \<Longrightarrow>
   retryLoop (liftContext ctx) (recording f) (liftCallback cb) attempts interval (Suc n) attempt e (w, tr)
     = ((attempt + 1, Some (Wrapped ''context error'' cerr)), (w3, tr @ [Some err]))"
  by (simp add: liftContext_def recording_def lifted_callback)

lemma lifted_wait_elapsed:
  "ctxErr ctx w = None \<Longrightarrow> f w = (Some err, w1) \<Longrightarrow> attempt + 1 < attempts \<Longrightarrow>
   selectDone ctx interval (applyCallback cb (attempt + 1) err w1) = (None, w3) \<Longrightarrow>
   retryLoop (liftContext ctx) (recording f) (liftCallback cb) attempts interval (Suc n) attempt e (w, tr)
     = retryLoop (liftContext ctx) (recording f) (liftCallback cb) attempts interval n (attempt + 1)
         (Some err) (w3, tr @ [Some err])"
  by (simp add: liftContext_def recording_def lifted_callback)

lemma lifted_last:
  "ctxErr ctx w = None \<Longrightarrow> f w = (Some err, w1) \<Longrightarrow> \<not> attempt + 1 < attempts \<Longrightarrow>
   retryLoop (liftContext ctx) (recording f) (liftCallback cb) attempts interval (Suc n) attempt e (w, tr)
     = retryLoop (liftContext ctx) (recording f) (liftCallback cb) attempts interval n (attempt + 1)
         (Some err) (applyCallback cb (attempt + 1) err w1, tr @ [Some err])"
  by (simp add: liftContext_def recording_def lifted_callback)

lemma recordedOk_zero: "recordedOk 0 attempt e attempt e []"
  by (simp add: recordedOk_def)

lemma recordedOk_cancelled: "recordedOk (Suc n) attempt e attempt (Some (Wrapped ''context error'' err)) []"
  by (simp add: recordedOk_def)

lemma recordedOk_success: "recordedOk (Suc n) attempt e (attempt + 1) None [None]"
  by (simp add: recordedOk_def)

lemma recordedOk_wait_cancelled:
  "attempt + 1 < attempt + int (Suc n) \<Longrightarrow>
   recordedOk (Suc n) attempt e (attempt + 1) (Some (Wrapped ''context error'' cerr)) [Some err]"
  by (simp add: recordedOk_def)

lemma recordedOk_step:
  assumes "recordedOk n (attempt + 1) (Some err) cnt r new"
  shows "recordedOk (Suc n) attempt e cnt r (Some err # new)"
proof -
  from assms have
    a1: "cnt = attempt + 1 + int (length new)" and
    a2: "length new \<le> n" and
    a3: "None \<notin> set (butlast new)" and
    a4: "new \<noteq> [] \<and> last new = None \<longrightarrow> r = None" and
    a5: "r = None \<longrightarrow> (new \<noteq> [] \<and> last new = None) \<or> (new = [] \<and> Some err = None \<and> n = 0)" and
    a6: "length new = n \<longrightarrow> r = (if new = [] then Some err else last new)" and
    a7: "length new < n \<longrightarrow> r = None \<or> (\<exists>err. r = Some (Wrapped ''context error'' err))"
    unfolding recordedOk_def by blast+
  have b1: "cnt = attempt + int (length (Some err # new))"
    using a1 by simp
  have b2: "length (Some err # new) \<le> Suc n"
    using a2 by simp
  have b3: "None \<notin> set (butlast (Some err # new))"
    using a3 by simp
  have b4: "Some err # new \<noteq> [] \<and> last (Some err # new) = None \<longrightarrow> r = None"
    using a4 by (cases "new = []") simp_all
  have b5: "r = None \<longrightarrow> (Some err # new \<noteq> [] \<and> last (Some err # new) = None) \<or>
              (Some err # new = [] \<and> e = None \<and> Suc n = 0)"
    using a5 by (cases "new = []") auto
  have b6: "length (Some err # new) = Suc n \<longrightarrow>
              r = (if Some err # new = [] then e else last (Some err # new))"
    using a6 by (cases "new = []") simp_all
  have b7: "length (Some err # new) < Suc n \<longrightarrow>
              r = None \<or> (\<exists>err. r = Some (Wrapped ''context error'' err))"
    using a7 by simp
  from b1 b2 b3 b4 b5 b6 b7 show ?thesis
    unfolding recordedOk_def by blast
qed

lemma retryLoop_recorded:
  assumes "retryLoop (liftContext ctx) (recording f) (liftCallback cb) attempts interval n attempt e (w, tr)
             = ((cnt, r), (w', tr'))"
      and "attempt + int n = attempts"
  shows "\<exists>new. tr' = tr @ new \<and> recordedOk n attempt e cnt r new"
  using assms
proof (induction n arbitrary: attempt e w tr)
  case 0
  from "0.prems"(1) have "attempt = cnt" "e = r" "tr = tr'"
    by (simp_all only: retryLoop.simps prod.inject)
  then show ?case using recordedOk_zero [of cnt r] by simp
next
  case (Suc n)
  show ?case
  proof (cases "ctxErr ctx w")
    case (Some err)
    from Suc.prems(1) have "((attempt, Some (Wrapped ''context error'' err)), (w, tr)) = ((cnt, r), (w', tr'))"
      by (simp only: lifted_cancelled [where w = w, OF Some])
    then have "tr' = tr @ []" "cnt = attempt" "r = Some (Wrapped ''context error'' err)"
      by simp_all
    then show ?thesis using recordedOk_cancelled by blast
  next
    case None
    obtain r1 w1 where fw: "f w = (r1, w1)" by (cases "f w")
    show ?thesis
    proof (cases r1)
      case rNone: None
      from Suc.prems(1) have "((attempt + 1, None), (w1, tr @ [None])) = ((cnt, r), (w', tr'))"
        by (simp only: lifted_success [where f = f and w = w, OF None fw [unfolded rNone]])
      then have "tr' = tr @ [None]" "cnt = attempt + 1" "r = None"
        by simp_all
      then show ?thesis using recordedOk_success by blast
    next
      case (Some err)
      note fw' = fw [unfolded Some]
      from Suc.prems(2) have next_total: "attempt + 1 + int n = attempts" by simp
      show ?thesis
      proof (cases "attempt + 1 < attempts")
        case True
        obtain c w3 where sel: "selectDone ctx interval (applyCallback cb (attempt + 1) err w1) = (c, w3)"
          by (cases "selectDone ctx interval (applyCallback cb (attempt + 1) err w1)")
        show ?thesis
        proof (cases c)
          case cNone: None
          from Suc.prems(1) have rec: "retryLoop (liftContext ctx) (recording f) (liftCallback cb) attempts interval n
                      (attempt + 1) (Some err) (w3, tr @ [Some err]) = ((cnt, r), (w', tr'))"
            by (simp only: lifted_wait_elapsed [where f = f and w = w, OF None fw' True sel [unfolded cNone]])
          from Suc.IH [OF rec next_total] obtain new where
            new: "tr' = (tr @ [Some err]) @ new" "recordedOk n (attempt + 1) (Some err) cnt r new"
            by blast
          from new(1) have "tr' = tr @ (Some err # new)" by simp
          with recordedOk_step [OF new(2)] show ?thesis by blast
        next
          case (Some cerr)
          from Suc.prems(1) have "((attempt + 1, Some (Wrapped ''context error'' cerr)), (w3, tr @ [Some err]))
               = ((cnt, r), (w', tr'))"
            by (simp only: lifted_wait_cancelled [where f = f and w = w, OF None fw' True sel [unfolded Some]])
          then have "tr' = tr @ [Some err]" "cnt = attempt + 1"
              "r = Some (Wrapped ''context error'' cerr)"
            by simp_all
          moreover from True Suc.prems(2) have "attempt + 1 < attempt + int (Suc n)" by simp
          ultimately show ?thesis using recordedOk_wait_cancelled by blast
        qed
      next
        case False
        from Suc.prems(1) have rec: "retryLoop (liftContext ctx) (recording f) (liftCallback cb) attempts interval n
                    (attempt + 1) (Some err) (applyCallback cb (attempt + 1) err w1, tr @ [Some err])
                      = ((cnt, r), (w', tr'))"
          by (simp only: lifted_last [where f = f and w = w, OF None fw' False])
        from Suc.IH [OF rec next_total] obtain new where
          new: "tr' = (tr @ [Some err]) @ new" "recordedOk n (attempt + 1) (Some err) cnt r new"
          by blast
        from new(1) have "tr' = tr @ (Some err # new)" by simp
        with recordedOk_step [OF new(2)] show ?thesis by blast
      qed
    qed
  qed
qed

text \<open>
  Claim C7. \<^verbatim>\<open>withRetries\<close> checks for a nil operation first: a nil operation gives
  an invalid-argument error, the count 0, and nothing is invoked. With an operation and
  \<open>attempts \<le> 0\<close> nothing is invoked and the result is the count 0 and no error. If
  the context is already cancelled before an invocation (in particular the first),
  the result is a context error, the operation is not invoked and the attempt is not
  counted. In every run the count returned is the number of invocations and is at most
  \<open>attempts\<close>; no invocation follows a success, a success is returned at once as no
  error, and when the attempts are exhausted the result is the error of the last
  invocation. A run that stops earlier returns no error or a context error.
\<close>

theorem withRetries_contract:
  "(attempts \<le> 0 \<longrightarrow> withRetries ctx (Some f) cb attempts interval w = ((0, None), w)) \<and>
   withRetries ctx None cb attempts interval w
     = ((0, Some (Wrapped ''function cannot be nil'' errInvalidArgument)), w) \<and>
   (0 < attempts \<and> ctxErr ctx w = Some err \<longrightarrow>
      withRetries ctx (Some f) cb attempts interval w = ((0, Some (Wrapped ''context error'' err)), w)) \<and>
   (ctxErr ctx w = Some err \<longrightarrow>
      retryLoop ctx f cb attempts interval (Suc n) attempt e w
        = ((attempt, Some (Wrapped ''context error'' err)), w)) \<and>
   (withRetries (liftContext ctx) (Some (recording f)) (liftCallback cb) attempts interval (w, [])
        = ((cnt, r), (w', tr)) \<longrightarrow>
      cnt = int (length tr) \<and> cnt \<le> max 0 attempts \<and>
      None \<notin> set (butlast tr) \<and>
      (tr \<noteq> [] \<and> last tr = None \<longrightarrow> r = None) \<and>
      (0 < attempts \<and> r = None \<longrightarrow> tr \<noteq> [] \<and> last tr = None) \<and>
      (0 < attempts \<and> cnt = attempts \<longrightarrow> r = last tr) \<and>
      (cnt < attempts \<longrightarrow> r = None \<or> (\<exists>cerr. r = Some (Wrapped ''context error'' cerr))))"
proof -
  have zero: "withRetries ctx (Some f) cb attempts interval w = ((0, None), w)" if "attempts \<le> 0"
    using that by (simp add: withRetries_def)
  have nil: "withRetries ctx None cb attempts interval w
     = ((0, Some (Wrapped ''function cannot be nil'' errInvalidArgument)), w)"
    by (simp add: withRetries_def)
  have step: "retryLoop ctx f cb attempts interval (Suc n) attempt e w
        = ((attempt, Some (Wrapped ''context error'' err)), w)" if "ctxErr ctx w = Some err" for n attempt e
    using that by simp
  have first: "withRetries ctx (Some f) cb attempts interval w = ((0, Some (Wrapped ''context error'' err)), w)"
    if "0 < attempts \<and> ctxErr ctx w = Some err"
  proof -
    from that obtain m where "nat attempts = Suc m" by (cases "nat attempts") auto
    with that step [of m 0 None] show ?thesis by (simp add: withRetries_def)
  qed
  have counted: "cnt = int (length tr) \<and> cnt \<le> max 0 attempts \<and>
      None \<notin> set (butlast tr) \<and>
      (tr \<noteq> [] \<and> last tr = None \<longrightarrow> r = None) \<and>
      (0 < attempts \<and> r = None \<longrightarrow> tr \<noteq> [] \<and> last tr = None) \<and>
      (0 < attempts \<and> cnt = attempts \<longrightarrow> r = last tr) \<and>
      (cnt < attempts \<longrightarrow> r = None \<or> (\<exists>cerr. r = Some (Wrapped ''context error'' cerr)))"
    if run: "withRetries (liftContext ctx) (Some (recording f)) (liftCallback cb) attempts interval (w, [])
        = ((cnt, r), (w', tr))"
  proof (cases "attempts \<le> 0")
    case True
    with run have "cnt = 0" "r = None" "tr = []"
      by (simp_all add: withRetries_def)
    with True show ?thesis by simp
  next
    case False
    then have total: "0 + int (nat attempts) = attempts" by simp
    from run have loop: "retryLoop (liftContext ctx) (recording f) (liftCallback cb) attempts interval
        (nat attempts) 0 None (w, []) = ((cnt, r), (w', tr))"
      by (simp add: withRetries_def)
    from retryLoop_recorded [OF loop total] have ok: "recordedOk (nat attempts) 0 None cnt r tr"
      by simp
    from ok have
      a1: "cnt = 0 + int (length tr)" and
      a2: "length tr \<le> nat attempts" and
      a3: "None \<notin> set (butlast tr)" and
      a4: "tr \<noteq> [] \<and> last tr = None \<longrightarrow> r = None" and
      a5: "r = None \<longrightarrow> (tr \<noteq> [] \<and> last tr = None) \<or> (tr = [] \<and> None = (None :: error option) \<and> nat attempts = 0)" and
      a6: "length tr = nat attempts \<longrightarrow> r = (if tr = [] then None else last tr)" and
      a7: "length tr < nat attempts \<longrightarrow> r = None \<or> (\<exists>err. r = Some (Wrapped ''context error'' err))"
      unfolding recordedOk_def by blast+
    have b1: "cnt = int (length tr)" using a1 by simp
    have b2: "cnt \<le> max 0 attempts" using a1 a2 by simp
    have b5: "0 < attempts \<and> r = None \<longrightarrow> tr \<noteq> [] \<and> last tr = None"
      using a5 by auto
    have b6: "0 < attempts \<and> cnt = attempts \<longrightarrow> r = last tr"
    proof
      assume h: "0 < attempts \<and> cnt = attempts"
      with b1 have "length tr = nat attempts" by simp
      moreover from this h have "tr \<noteq> []" by auto
      ultimately show "r = last tr" using a6 by simp
    qed
    have b7: "cnt < attempts \<longrightarrow> r = None \<or> (\<exists>cerr. r = Some (Wrapped ''context error'' cerr))"
    proof
      assume "cnt < attempts"
      with b1 have "length tr < nat attempts" by simp
      with a7 show "r = None \<or> (\<exists>cerr. r = Some (Wrapped ''context error'' cerr))" by blast
    qed
    from b1 b2 a3 a4 b5 b6 b7 show ?thesis by blast
  qed
  from zero nil first step counted show ?thesis by blast
qed

theorem withRetries_contract_witness:
  "withRetries ctxLive (Some opFail) None 0 15 0 = ((0, None), 0) \<and>
   withRetries ctxCancelled (Some opFail) None 3 15 0
     = ((0, Some (Wrapped ''context error'' (External ''context canceled''))), 0) \<and>
   withRetries (liftContext ctxLive) (Some (recording opFail)) (liftCallback None) 2 15 (0, [])
     = ((2, Some (External ''boom'')), (2, [Some (External ''boom''), Some (External ''boom'')])) \<and>
   (2 :: int) = int (length [Some (External ''boom''), Some (External ''boom'')]) \<and>
   Some (External ''boom'') = last [Some (External ''boom''), Some (External ''boom'')]"
proof -
  have z: "(0::int) \<le> 0" by simp
  have c: "0 < (3::int) \<and> ctxErr ctxCancelled (0::nat) = Some (External ''context canceled'')"
    by (simp add: ctxCancelled_def)
  have run: "withRetries (liftContext ctxLive) (Some (recording opFail)) (liftCallback None) 2 15 (0, [])
     = ((2, Some (External ''boom'')), (2, [Some (External ''boom''), Some (External ''boom'')]))"
    by (simp add: withRetries_def liftContext_def ctxLive_def recording_def opFail_def
        liftCallback_def numeral_2_eq_2)
  have full: "0 < (2::int) \<and> (2::int) = 2" by simp
  from z withRetries_contract [where attempts = 0 and ctx = ctxLive and f = opFail and cb = None
      and interval = 15 and w = 0]
  have first: "withRetries ctxLive (Some opFail) None 0 15 0 = ((0, None), 0)"
    by blast
  from c withRetries_contract [where attempts = 3 and ctx = ctxCancelled and f = opFail and cb = None
      and interval = 15 and w = 0 and err = "External ''context canceled''"]
  have second: "withRetries ctxCancelled (Some opFail) None 3 15 0
     = ((0, Some (Wrapped ''context error'' (External ''context canceled''))), 0)"
    by blast
  from run full withRetries_contract [where attempts = 2 and ctx = ctxLive and f = opFail and cb = None
      and interval = 15 and w = 0 and cnt = 2 and r = "Some (External ''boom'')" and w' = 2
      and tr = "[Some (External ''boom''), Some (External ''boom'')]"]
  have third: "(2 :: int) = int (length [Some (External ''boom''), Some (External ''boom'')]) \<and>
   Some (External ''boom'') = last [Some (External ''boom''), Some (External ''boom'')]"
    by blast
  from first second run third show ?thesis by blast
qed

subsection \<open>The device resolver\<close>

lemma readSas_observedOn: "(readSas fs d = Some a) = observedOn fs a d"
  by (auto simp: readSas_def observedOn_def ReadFile_def Let_def split: option.splits)

lemma finderLoop_ignored:
  "a \<in> snd (finderLoop fs ds devs ign) \<longleftrightarrow>
     a \<in> ign \<or> (devs a \<noteq> None \<and> 1 \<le> length (filter (\<lambda>d. readSas fs d = Some a) ds)) \<or>
     2 \<le> length (filter (\<lambda>d. readSas fs d = Some a) ds)"
proof (induction ds arbitrary: devs ign)
  case Nil
  show ?case by simp
next
  case (Cons d ds)
  show ?case
  proof (cases "readSas fs d")
    case None
    then show ?thesis using Cons.IH [of devs ign] by simp
  next
    case (Some sas)
    then have step: "finderLoop fs (d # ds) devs ign =
        finderLoop fs ds (devs(sas \<mapsto> sgNode d)) (if devs sas \<noteq> None then insert sas ign else ign)"
      by simp
    show ?thesis
      unfolding step Cons.IH using Some by (cases "sas = a") auto
  qed
qed

lemma finderLoop_devices:
  "fst (finderLoop fs ds devs ign) a =
     (if filter (\<lambda>d. readSas fs d = Some a) ds = [] then devs a
      else Some (sgNode (last (filter (\<lambda>d. readSas fs d = Some a) ds))))"
proof (induction ds arbitrary: devs ign)
  case Nil
  show ?case by simp
next
  case (Cons d ds)
  show ?case
  proof (cases "readSas fs d")
    case None
    then show ?thesis using Cons.IH [of devs ign] by simp
  next
    case (Some sas)
    then have step: "finderLoop fs (d # ds) devs ign =
        finderLoop fs ds (devs(sas \<mapsto> sgNode d)) (if devs sas \<noteq> None then insert sas ign else ign)"
      by simp
    show ?thesis
      unfolding step Cons.IH using Some by (cases "sas = a") simp_all
  qed
qed

lemma observedOn_sysfs3:
  "filter (observedOn sysfs3 ''0x5000c50098765432'')
     [''/sys/class/scsi_generic/sg0/device'', ''/sys/class/scsi_generic/sg1/device'',
      ''/sys/class/scsi_generic/sg2/device'']
     = [''/sys/class/scsi_generic/sg0/device'', ''/sys/class/scsi_generic/sg1/device'']"
  "filter (observedOn sysfs3 ''0x5000c50098765433'')
     [''/sys/class/scsi_generic/sg0/device'', ''/sys/class/scsi_generic/sg1/device'',
      ''/sys/class/scsi_generic/sg2/device'']
     = [''/sys/class/scsi_generic/sg2/device'']"
  by (simp_all add: observedOn_def sysfs3_def Join2_def Clean_def cleanStep_def TrimSpace_def
      isSpace_def ToLower_def toLowerASCII_def isUpperASCII_def char_of_def bit_Suc_0_iff)

lemma sgNode_sg2: "''/dev/'' @ Base (Dir ''/sys/class/scsi_generic/sg2/device'') = ''/dev/sg2''"
  by (simp add: Dir_def Base_def Clean_def cleanStep_def)

text \<open>
  The device node of a match of the glob: for a name without a separator, other than
  \<^verbatim>\<open>.\<close> and \<^verbatim>\<open>..\<close>, it is the name under \<^verbatim>\<open>/dev\<close>.
\<close>

lemma splitOn_no_sep: "c \<notin> set xs \<Longrightarrow> splitOn c xs = [xs]"
  by (induction xs) auto

lemma splitOn_at_sep: "c \<notin> set xs \<Longrightarrow> splitOn c (xs @ c # ys) = xs # splitOn c ys"
  by (induction xs) (auto simp: splitOn_no_sep)

lemma Dir_of_match:
  assumes "n \<noteq> []" and "CHR ''/'' \<notin> set n" and "n \<noteq> ''.''" and "n \<noteq> ''..''"
  shows "Dir (''/sys/class/scsi_generic/'' @ n @ ''/device'') = ''/sys/class/scsi_generic/'' @ n"
proof -
  have cut: "rev (dropWhile (\<lambda>c. c \<noteq> CHR ''/'') (rev (''/sys/class/scsi_generic/'' @ n @ ''/device'')))
      = ''/sys/class/scsi_generic/'' @ n @ ''/''"
    by simp
  have tail: "splitOn CHR ''/'' (n @ ''/'') = [n, []]"
    using splitOn_at_sep [OF assms(2), of "[]"] by simp
  show ?thesis
    unfolding Dir_def cut using assms by (simp add: Clean_def tail cleanStep_def)
qed

lemma Base_after_slash:
  assumes "n \<noteq> []" and "CHR ''/'' \<notin> set n"
  shows "Base (p @ CHR ''/'' # n) = n"
proof -
  let ?r = "rev (p @ CHR ''/'' # n)"
  have shape: "?r = rev n @ CHR ''/'' # rev p" by simp
  from assms have "hd (rev n) \<noteq> CHR ''/''"
    using last_in_set [of n] by (metis hd_rev)
  with assms(1) have "hd ?r \<noteq> CHR ''/''" by (simp add: hd_append)
  then have keep: "dropWhile (\<lambda>c. c = CHR ''/'') ?r = ?r"
    by (simp only: dropWhile_eq_self_iff) simp
  from assms(2) have "takeWhile (\<lambda>c. c \<noteq> CHR ''/'') (rev n @ CHR ''/'' # rev p) = rev n"
    by (subst takeWhile_append2) auto
  then have cut: "takeWhile (\<lambda>c. c \<noteq> CHR ''/'') ?r = rev n"
    by (simp only: shape)
  have "Base (p @ CHR ''/'' # n) = (if rev (rev n) = [] then ''/'' else rev (rev n))"
    unfolding Base_def Let_def keep rev_rev_ident cut by simp
  with assms(1) show ?thesis by simp
qed

lemma Base_of_match:
  assumes "n \<noteq> []" and "CHR ''/'' \<notin> set n"
  shows "Base (''/sys/class/scsi_generic/'' @ n) = n"
  using Base_after_slash [OF assms, of "''/sys/class/scsi_generic''"] by simp

lemma sgNode_of_match:
  assumes "n \<noteq> []" and "CHR ''/'' \<notin> set n" and "n \<noteq> ''.''" and "n \<noteq> ''..''"
  shows "sgNode (''/sys/class/scsi_generic/'' @ n @ ''/device'') = ''/dev/'' @ n"
  unfolding sgNode_def Dir_of_match [OF assms] Base_of_match [OF assms(1,2)] ..

text \<open>
  Claim C8. After \<^verbatim>\<open>NewDeviceFinder\<close> has enumerated the device directories that
  the glob pattern matches, every SAS address (trimmed, lower-cased, not empty)
  observed on more than one of them is absent from the index, so \<^verbatim>\<open>FindDevice\<close>
  reports it as not found; every address observed on exactly one directory \<open>d\<close> maps
  to \<^verbatim>\<open>/dev/\<close> followed by the name of the parent directory of \<open>d\<close>, the
  \<^verbatim>\<open>sgN\<close> component.
\<close>

theorem NewDeviceFinder_drops_ambiguous:
  assumes "globMatches fs ''/sys/class/scsi_generic/sg*/device'' = Inr matches"
  shows "\<exists>f warned. NewDeviceFinder fs = Inr (f, warned) \<and>
           (\<forall>a. 1 < length (filter (observedOn fs a) matches) \<longrightarrow>
                  devices f a = None \<and> FindDevice f a = ([], False)) \<and>
           (\<forall>a d. filter (observedOn fs a) matches = [d] \<longrightarrow>
                  FindDevice f a = (''/dev/'' @ Base (Dir d), True))"
proof -
  define L where "L = finderLoop fs matches Map.empty {}"
  define f where "f = \<lparr>devices = fst L |` (- snd L)\<rparr>"
  have obs: "(\<lambda>d. readSas fs d = Some a) = observedOn fs a" for a
    by (rule ext) (rule readSas_observedOn)
  have ign: "a \<in> snd L \<longleftrightarrow> 2 \<le> length (filter (observedOn fs a) matches)" for a
    unfolding L_def finderLoop_ignored obs by simp
  have dev: "fst L a = (if filter (observedOn fs a) matches = [] then None
      else Some (sgNode (last (filter (observedOn fs a) matches))))" for a
    unfolding L_def finderLoop_devices obs by simp
  have run: "NewDeviceFinder fs = Inr (f, snd L)"
    using assms by (simp add: NewDeviceFinder_def L_def f_def split: prod.splits)
  have many: "devices f a = None \<and> FindDevice f a = ([], False)"
    if "1 < length (filter (observedOn fs a) matches)" for a
  proof -
    from that have "a \<in> snd L" unfolding ign by simp
    then have "devices f a = None" by (simp add: f_def restrict_map_def)
    then show ?thesis by (simp add: FindDevice_def)
  qed
  have one: "FindDevice f a = (''/dev/'' @ Base (Dir d), True)"
    if "filter (observedOn fs a) matches = [d]" for a d
  proof -
    from that have "a \<notin> snd L" unfolding ign by simp
    moreover from that have "fst L a = Some (sgNode d)" unfolding dev by simp
    ultimately have "devices f a = Some (sgNode d)" by (simp add: f_def restrict_map_def)
    then show ?thesis by (simp add: FindDevice_def sgNode_def)
  qed
  from run many one show ?thesis by blast
qed

theorem NewDeviceFinder_drops_ambiguous_witness:
  "\<exists>f warned. NewDeviceFinder sysfs3 = Inr (f, warned) \<and>
     FindDevice f ''0x5000c50098765432'' = ([], False) \<and>
     FindDevice f ''0x5000c50098765433'' = (''/dev/sg2'', True)"
proof -
  have glob: "globMatches sysfs3 ''/sys/class/scsi_generic/sg*/device'' =
      Inr [''/sys/class/scsi_generic/sg0/device'', ''/sys/class/scsi_generic/sg1/device'',
           ''/sys/class/scsi_generic/sg2/device'']"
    by (simp add: sysfs3_def)
  from NewDeviceFinder_drops_ambiguous [OF glob] obtain f warned where
    run: "NewDeviceFinder sysfs3 = Inr (f, warned)" and
    many: "\<And>a. 1 < length (filter (observedOn sysfs3 a)
        [''/sys/class/scsi_generic/sg0/device'', ''/sys/class/scsi_generic/sg1/device'',
         ''/sys/class/scsi_generic/sg2/device'']) \<Longrightarrow> FindDevice f a = ([], False)" and
    one: "\<And>a d. filter (observedOn sysfs3 a)
        [''/sys/class/scsi_generic/sg0/device'', ''/sys/class/scsi_generic/sg1/device'',
         ''/sys/class/scsi_generic/sg2/device''] = [d] \<Longrightarrow>
        FindDevice f a = (''/dev/'' @ Base (Dir d), True)"
    by blast
  have "FindDevice f ''0x5000c50098765432'' = ([], False)"
    by (rule many, unfold observedOn_sysfs3(1)) simp
  moreover have "FindDevice f ''0x5000c50098765433'' = (''/dev/sg2'', True)"
    using one [OF observedOn_sysfs3(2)] by (simp only: sgNode_sg2)
  ultimately show ?thesis using run by blast
qed

subsection \<open>The report writer\<close>








subsection \<open>Failure accounting\<close>

text \<open>
  Claim C10. If the context is already cancelled or the stop channel is already
  closed when \<^verbatim>\<open>pollFailure\<close> is invoked, it returns at once: the monitor is
  unchanged (the failure counter is not incremented, \<^verbatim>\<open>Stop\<close> is not called, no
  back-off wait takes place) and nothing is logged or dispatched.
\<close>

theorem pollFailure_returns_at_once:
  assumes "ctxDone \<or> stopClosed (state d)"
  shows "pollFailure ctxDone wk d err = (Ok (), d, [])"
  using assms by (simp add: pollFailure_def)

theorem pollFailure_returns_at_once_witness:
  "pollFailure True TimerFired monitorOut (External ''device gone'') = (Ok (), monitorOut, [])"
proof -
  have "True \<or> stopClosed (state monitorOut)" by simp
  from pollFailure_returns_at_once [OF this] show ?thesis .
qed

subsection \<open>Alert de-duplication\<close>













































subsection \<open>The supervisor\<close>

lemma programLoop_skip:
  "\<not> Enabled deviceCfg \<Longrightarrow>
   programLoop P fs finder ((i, deviceCfg) # rest) seen mons logs
     = programLoop P fs finder rest seen mons logs"
  by simp

lemma programLoop_tail:
  assumes "\<And>seen mons logs. programLoop P fs finder xs seen mons logs
             = programLoop P fs finder ys seen mons logs"
  shows "programLoop P fs finder ((i, deviceCfg) # xs) seen mons logs
           = programLoop P fs finder ((i, deviceCfg) # ys) seen mons logs"
proof (cases "Enabled deviceCfg")
  case False
  then show ?thesis by (simp add: assms)
next
  case True
  show ?thesis
  proof (cases "lookupDevice deviceCfg finder")
    case (Inl err)
    with True show ?thesis by simp
  next
    case (Inr res)
    obtain resolved lg where res: "res = (resolved, lg)" by (cases res)
    show ?thesis
    proof (cases "setupDeviceMonitor P resolved fs")
      case (Inl err)
      with True Inr res show ?thesis by simp
    next
      case built: (Inr monitor)
      from assms [of "case outputDirOf deviceCfg of None \<Rightarrow> seen | Some dir \<Rightarrow> insert dir seen"
          "mons(dy_Device resolved \<mapsto> monitor)" "logs @ lg"] True Inr res built
      show ?thesis by simp
    qed
  qed
qed

lemma programLoop_enabled_only:
  "programLoop P fs finder xs seen mons logs
     = programLoop P fs finder (enabledEntries xs) seen mons logs"
proof (induction xs arbitrary: seen mons logs)
  case Nil
  show ?case by (simp add: enabledEntries_def)
next
  case (Cons x xs)
  obtain i deviceCfg where x: "x = (i, deviceCfg)" by (cases x)
  show ?case
  proof (cases "Enabled deviceCfg")
    case False
    then have "enabledEntries ((i, deviceCfg) # xs) = enabledEntries xs"
      by (simp add: enabledEntries_def)
    with False Cons.IH [of seen mons logs] show ?thesis unfolding x by simp
  next
    case True
    then have e: "enabledEntries ((i, deviceCfg) # xs) = (i, deviceCfg) # enabledEntries xs"
      by (simp add: enabledEntries_def)
    show ?thesis
      unfolding x e by (rule programLoop_tail) (rule Cons.IH)
  qed
qed

lemma programLoop_all_disabled:
  "enabledEntries xs = [] \<Longrightarrow> programLoop P fs finder xs seen mons logs = (Inr mons, logs)"
  using programLoop_enabled_only [of P fs finder xs seen mons logs] by simp

lemma programLoop_count:
  assumes "programLoop P fs finder xs seen mons logs = (Inr mons', logs')" and "finite (dom mons)"
  shows "finite (dom mons') \<and> card (dom mons') = card (dom mons) + length (enabledEntries xs)"
  using assms
proof (induction xs arbitrary: seen mons logs)
  case Nil
  then show ?case by (simp add: enabledEntries_def)
next
  case (Cons x xs)
  obtain i deviceCfg where x: "x = (i, deviceCfg)" by (cases x)
  show ?case
  proof (cases "Enabled deviceCfg")
    case False
    with x Cons.prems have "programLoop P fs finder xs seen mons logs = (Inr mons', logs')" by simp
    from Cons.IH [OF this Cons.prems(2)] False x show ?thesis by (simp add: enabledEntries_def)
  next
    case True
    let ?seen = "case outputDirOf deviceCfg of None \<Rightarrow> seen | Some dir \<Rightarrow> insert dir seen"
    from Cons.prems(1) x
    have run: "programLoop P fs finder ((i, deviceCfg) # xs) seen mons logs = (Inr mons', logs')"
      by simp
    show ?thesis
    proof (cases "lookupDevice deviceCfg finder")
      case (Inl err)
      with run True show ?thesis by (simp split: if_splits)
    next
      case (Inr res)
      obtain resolved lg where res: "res = (resolved, lg)" by (cases res)
      show ?thesis
      proof (cases "setupDeviceMonitor P resolved fs")
        case (Inl err)
        with run True Inr res show ?thesis by (simp split: if_splits)
      next
        case built: (Inr monitor)
        from run True Inr res built
        have fresh: "mons (dy_Device resolved) = None"
          and rest: "programLoop P fs finder xs ?seen (mons(dy_Device resolved \<mapsto> monitor)) (logs @ lg)
            = (Inr mons', logs')"
          by (simp_all split: if_splits)
        from Cons.prems(2) have fin: "finite (dom (mons(dy_Device resolved \<mapsto> monitor)))" by simp
        from fresh Cons.prems(2)
        have grown: "card (dom (mons(dy_Device resolved \<mapsto> monitor))) = Suc (card (dom mons))"
          by (simp add: domIff)
        have ih: "finite (dom mons') \<and> card (dom mons') =
            card (dom (mons(dy_Device resolved \<mapsto> monitor))) + length (enabledEntries xs)"
          by (rule Cons.IH [OF rest fin])
        then have f': "finite (dom mons')"
          and c': "card (dom mons') =
            card (dom (mons(dy_Device resolved \<mapsto> monitor))) + length (enabledEntries xs)"
          by blast+
        from True have e: "enabledEntries ((i, deviceCfg) # xs) = (i, deviceCfg) # enabledEntries xs"
          by (simp add: enabledEntries_def)
        show ?thesis
          unfolding x e using f' c' [unfolded grown] by simp
      qed
    qed
  qed
qed

lemma enabledEntries_none:
  "(\<forall>c \<in> set devs. \<not> Enabled c) \<Longrightarrow> enabledEntries (enumerate n devs) = []"
  by (auto simp: enabledEntries_def filter_empty_conv in_set_enumerate_eq)

text \<open>
  Claim C9. A device entry whose \<open>Enabled\<close> field is false (also when the key is
  absent from the YAML document) is skipped entirely by \<^verbatim>\<open>NewProgram\<close>: the loop
  goes on with the same set of output directories, the same monitors and the same log,
  so its result is the one of the loop over the enabled entries alone; on success
  exactly one monitor is created for each enabled entry and none for the others; and a
  configuration whose entries are all disabled, however invalid they are, makes
  \<^verbatim>\<open>NewProgram\<close> succeed with no monitor.
\<close>

theorem NewProgram_skips_disabled:
  "programLoop P fs finder xs seen mons logs
     = programLoop P fs finder (enabledEntries xs) seen mons logs \<and>
   (\<not> Enabled deviceCfg \<longrightarrow>
      programLoop P fs finder ((i, deviceCfg) # rest) seen mons logs
        = programLoop P fs finder rest seen mons logs) \<and>
   (programLoop P fs finder xs seen mons logs = (Inr mons', logs') \<and> finite (dom mons) \<longrightarrow>
      card (dom mons') = card (dom mons) + length (enabledEntries xs)) \<and>
   (yamlDecode P yamlConfig = Inr config \<and> Devices config \<noteq> [] \<and>
    (\<forall>c \<in> set (Devices config). \<not> Enabled c) \<longrightarrow>
      NewProgram P yamlConfig f d =
        (Inr \<lparr>monitors = Map.empty\<rparr>,
         snd (chooseFinder P (case f of Some x \<Rightarrow> x | None \<Rightarrow> osFs P) d)))"
proof -
  have a: "programLoop P fs finder xs seen mons logs
     = programLoop P fs finder (enabledEntries xs) seen mons logs"
    by (rule programLoop_enabled_only)
  have b: "programLoop P fs finder ((i, deviceCfg) # rest) seen mons logs
        = programLoop P fs finder rest seen mons logs" if "\<not> Enabled deviceCfg"
    using that by (rule programLoop_skip)
  have c: "card (dom mons') = card (dom mons) + length (enabledEntries xs)"
    if "programLoop P fs finder xs seen mons logs = (Inr mons', logs') \<and> finite (dom mons)"
    using that programLoop_count [of P fs finder xs seen mons logs mons' logs'] by blast
  have d: "NewProgram P yamlConfig f d =
        (Inr \<lparr>monitors = Map.empty\<rparr>,
         snd (chooseFinder P (case f of Some x \<Rightarrow> x | None \<Rightarrow> osFs P) d))"
    if h: "yamlDecode P yamlConfig = Inr config \<and> Devices config \<noteq> [] \<and>
      (\<forall>c \<in> set (Devices config). \<not> Enabled c)"
  proof -
    let ?fs = "case f of Some x \<Rightarrow> x | None \<Rightarrow> osFs P"
    obtain finder lg where ch: "chooseFinder P ?fs d = (finder, lg)"
      by (cases "chooseFinder P ?fs d")
    from h have "enabledEntries (enumerate 0 (Devices config)) = []"
      by (simp add: enabledEntries_none)
    then have "programLoop P ?fs finder (enumerate 0 (Devices config)) {} Map.empty lg
        = (Inr Map.empty, lg)"
      by (rule programLoop_all_disabled)
    with h ch show ?thesis by (simp add: NewProgram_def)
  qed
  from a b c d show ?thesis by blast
qed

theorem NewProgram_skips_disabled_witness:
  "\<not> Enabled brokenEntry \<and>
   fst (programLoop progDemo memFs None [(0, brokenEntry\<lparr>Enabled := True\<rparr>)] {} Map.empty [])
     = Inl (AtConfig 0 (Wrapped ''missing device and address'' errInvalidArgument)) \<and>
   NewProgram progDemo [] None None = (Inr \<lparr>monitors = Map.empty\<rparr>, [])"
proof -
  have off: "\<not> Enabled brokenEntry" by (simp add: brokenEntry_def)
  have broken: "fst (programLoop progDemo memFs None [(0, brokenEntry\<lparr>Enabled := True\<rparr>)] {} Map.empty [])
     = Inl (AtConfig 0 (Wrapped ''missing device and address'' errInvalidArgument))"
    by (simp add: brokenEntry_def)
  have h: "yamlDecode progDemo [] = Inr \<lparr>DisableTimestamps = False, Devices = [brokenEntry]\<rparr> \<and>
      Devices \<lparr>DisableTimestamps = False, Devices = [brokenEntry]\<rparr> \<noteq> [] \<and>
      (\<forall>c \<in> set (Devices \<lparr>DisableTimestamps = False, Devices = [brokenEntry]\<rparr>). \<not> Enabled c)"
    by (simp add: progDemo_def brokenEntry_def)
  have logs: "snd (chooseFinder progDemo (case None of Some x \<Rightarrow> x | None \<Rightarrow> osFs progDemo) None) = []"
    by (simp add: chooseFinder_def progDemo_def NewDeviceFinder_def memFs_def)
  from NewProgram_skips_disabled [where P = progDemo and yamlConfig = "[]"
      and config = "\<lparr>DisableTimestamps = False, Devices = [brokenEntry]\<rparr>" and f = None and d = None,
      THEN conjunct2, THEN conjunct2, THEN conjunct2, rule_format, OF h]
  have "NewProgram progDemo [] None None = (Inr \<lparr>monitors = Map.empty\<rparr>, [])"
    unfolding logs .
  with off broken show ?thesis by blast
qed

end
